theory Spec2Isabelle
  imports Complex_Main "HOL-Library.Word"
begin

section \<open>Python string primitives used by the crawler\<close>

text \<open>
  A Python \<^verbatim>\<open>str\<close> is modelled as a \<^typ>\<open>string\<close>; only ASCII text is covered
  (a \<^typ>\<open>char\<close> is a byte).  \<^verbatim>\<open>str.isdigit\<close>, \<^verbatim>\<open>str.isspace\<close>, \<^verbatim>\<open>str.lower\<close>,
  \<^verbatim>\<open>str.strip\<close>, \<^verbatim>\<open>str.lstrip(chars)\<close>, \<^verbatim>\<open>str.split(sep)\<close>, \<^verbatim>\<open>str.startswith\<close>,
  \<^verbatim>\<open>int(str)\<close> and \<^verbatim>\<open>str(int)\<close> follow the CPython behaviour on ASCII input.
\<close>

definition py_isdigit :: "char \<Rightarrow> bool" where
  "py_isdigit c = (48 \<le> (of_char c :: nat) \<and> (of_char c :: nat) \<le> 57)"

definition py_isspace :: "char \<Rightarrow> bool" where
  "py_isspace c = ((of_char c :: nat) \<in> {9, 10, 11, 12, 13, 28, 29, 30, 31, 32})"

definition py_lower_char :: "char \<Rightarrow> char" where
  "py_lower_char c =
     (case map_of (zip ''ABCDEFGHIJKLMNOPQRSTUVWXYZ'' ''abcdefghijklmnopqrstuvwxyz'') c of
        None \<Rightarrow> c
      | Some l \<Rightarrow> l)"

definition py_lower :: "string \<Rightarrow> string" where
  "py_lower s = map py_lower_char s"

definition py_lstrip :: "(char \<Rightarrow> bool) \<Rightarrow> string \<Rightarrow> string" where
  "py_lstrip p s = dropWhile p s"

definition py_strip :: "string \<Rightarrow> string" where
  "py_strip s = rev (dropWhile py_isspace (rev (dropWhile py_isspace s)))"

definition py_startswith :: "string \<Rightarrow> string \<Rightarrow> bool" where
  "py_startswith s p = (take (length p) s = p)"

text \<open>\<^verbatim>\<open>s.split(sep)\<close> for a one-character separator: never returns the empty list.\<close>

fun py_split :: "char \<Rightarrow> string \<Rightarrow> string list" where
  "py_split d [] = [[]]"
| "py_split d (c # cs) =
     (if c = d then [] # py_split d cs
      else (case py_split d cs of
              [] \<Rightarrow> [[c]]
            | p # ps \<Rightarrow> (c # p) # ps))"

definition digit_val :: "char \<Rightarrow> int" where
  "digit_val c = int (of_char c) - 48"

definition digits_val :: "string \<Rightarrow> int" where
  "digits_val s = foldl (\<lambda>a c. 10 * a + digit_val c) 0 s"

text \<open>
  The body of an integer literal accepted by \<^verbatim>\<open>int()\<close>: decimal digits, with single
  underscores allowed between two digits.
\<close>

fun int_body_rest :: "string \<Rightarrow> bool" where
  "int_body_rest [] = True"
| "int_body_rest (c # cs) =
     (if py_isdigit c then int_body_rest cs
      else c = CHR ''_'' \<and> (case cs of [] \<Rightarrow> False | d # ds \<Rightarrow> py_isdigit d \<and> int_body_rest cs))"

definition int_body :: "string \<Rightarrow> bool" where
  "int_body s = (case s of [] \<Rightarrow> False | c # cs \<Rightarrow> py_isdigit c \<and> int_body_rest cs)"

datatype py_error = ValueError | TypeError | OSError | OtherError

text \<open>
  \<^verbatim>\<open>int(s)\<close> for an ASCII string.  The whitespace that \<^verbatim>\<open>int\<close> drops on both sides is
  the space and the characters 9 to 13 only (the file, group, record and unit
  separators 28 to 31, which \<^verbatim>\<open>str.strip\<close> drops, make \<^verbatim>\<open>int\<close> raise).  One sign is
  allowed.  A literal of more than 4300 digits is refused with \<^verbatim>\<open>ValueError\<close>: 4300 is
  the default of \<^verbatim>\<open>sys.int_max_str_digits\<close>; underscores and the sign are not counted.
\<close>

definition py_int_isspace :: "char \<Rightarrow> bool" where
  "py_int_isspace c = ((of_char c :: nat) \<in> {9, 10, 11, 12, 13, 32})"

definition py_int_strip :: "string \<Rightarrow> string" where
  "py_int_strip s = rev (dropWhile py_int_isspace (rev (dropWhile py_int_isspace s)))"

definition int_max_str_digits :: nat where
  "int_max_str_digits = 4300"

definition py_int :: "string \<Rightarrow> py_error + int" where
  "py_int s =
     (let t = py_int_strip s;
          neg = (case t of [] \<Rightarrow> False | c # _ \<Rightarrow> c = CHR ''-'');
          body = (case t of [] \<Rightarrow> []
                  | c # cs \<Rightarrow> if c = CHR ''-'' \<or> c = CHR ''+'' then cs else t)
      in if int_body body \<and> length (filter py_isdigit body) \<le> int_max_str_digits
         then Inr ((if neg then - 1 else 1) * digits_val (filter py_isdigit body))
         else Inl ValueError)"

text \<open>
  \<^verbatim>\<open>str(n)\<close> for an integer: decimal digits, a minus sign when negative.  (An integer
  of more than 4300 digits, which \<^verbatim>\<open>str\<close> refuses, is no port number.)
\<close>

fun nat_digits :: "nat \<Rightarrow> string" where
  "nat_digits n =
     (if n < 10 then [''0123456789'' ! n]
      else nat_digits (n div 10) @ [''0123456789'' ! (n mod 10)])"

definition py_str_int :: "int \<Rightarrow> string" where
  "py_str_int i = (if i < 0 then CHR ''-'' # nat_digits (nat (- i)) else nat_digits (nat i))"

text \<open>\<^verbatim>\<open>[f(x) for x in xs]\<close> where \<^verbatim>\<open>f\<close> may raise: the first error aborts.\<close>

fun map_err :: "('a \<Rightarrow> py_error + 'b) \<Rightarrow> 'a list \<Rightarrow> py_error + 'b list" where
  "map_err f [] = Inr []"
| "map_err f (x # xs) =
     (case f x of
        Inl e \<Rightarrow> Inl e
      | Inr y \<Rightarrow> (case map_err f xs of Inl e \<Rightarrow> Inl e | Inr ys \<Rightarrow> Inr (y # ys)))"

section \<open>Version comparison\<close>

text \<open>
  \<^verbatim>\<open>Crawler._normalize_version\<close>: strip, drop leading \<^verbatim>\<open>v\<close>s then leading \<^verbatim>\<open>V\<close>s,
  split on dots, keep the digits of each of the first four parts, pad with zeros.
  The generator \<^verbatim>\<open>''.join(c for c in part if c.isdigit())\<close> keeps every digit of
  the part, wherever it stands.
\<close>

definition part_number :: "string \<Rightarrow> int" where
  "part_number part =
     (let numeric = filter py_isdigit part
      in if numeric \<noteq> [] then digits_val numeric else 0)"

definition normalize_version :: "string \<Rightarrow> int list" where
  "normalize_version version =
     (let version1 = py_lstrip (\<lambda>c. c = CHR ''V'') (py_lstrip (\<lambda>c. c = CHR ''v'') (py_strip version));
          parts = py_split (CHR ''.'') version1;
          normalized = map part_number (take 4 parts);
          padded = normalized @ replicate (4 - length normalized) 0
      in take 4 padded)"

definition versions_match :: "string \<Rightarrow> string \<Rightarrow> bool" where
  "versions_match version1 version2 = (normalize_version version1 = normalize_version version2)"

section \<open>IP validity filter\<close>

text \<open>
  \<^verbatim>\<open>Crawler._is_valid_ip\<close>.  The environment variable \<^verbatim>\<open>NODE_ENV\<close> is a parameter:
  \<open>None\<close> when unset.  Any exception inside the function makes it return \<open>False\<close>.
\<close>

definition is_development :: "string option \<Rightarrow> bool" where
  "is_development node_env =
     (py_lower (case node_env of None \<Rightarrow> [] | Some v \<Rightarrow> v) = ''development'')"

definition is_valid_ip :: "string option \<Rightarrow> string \<Rightarrow> bool" where
  "is_valid_ip node_env ip =
     (if CHR '':'' \<in> set ip then
        (if py_startswith ip ''::1'' \<or> py_startswith ip ''fe80:''
            \<or> py_startswith ip ''fc00:'' \<or> py_startswith ip ''fd00:''
         then False else True)
      else
        (let parts = py_split (CHR ''.'') ip in
         if length parts \<noteq> 4 then False
         else (case map_err py_int parts of
                 Inl e \<Rightarrow> False
               | Inr nums \<Rightarrow>
                   if nums ! 0 = 10 then is_development node_env
                   else if nums ! 0 = 172 \<and> 16 \<le> nums ! 1 \<and> nums ! 1 \<le> 31
                     then is_development node_env
                   else if nums ! 0 = 192 \<and> nums ! 1 = 168 then is_development node_env
                   else if nums ! 0 = 127 then is_development node_env
                   else if nums ! 0 = 0 then False
                   else True)))"

section \<open>Data model\<close>

text \<open>
  A \<^verbatim>\<open>datetime\<close> is its wall-clock reading in microseconds together with its
  \<^verbatim>\<open>tzinfo\<close>: \<open>None\<close> for a naive value, the UTC offset in seconds for an aware one.
  \<^verbatim>\<open>datetime.now(timezone.utc)\<close> is aware with offset 0.  Subtracting two datetimes
  raises \<^verbatim>\<open>TypeError\<close> when exactly one of them is naive; the difference (a
  \<^verbatim>\<open>timedelta\<close>) is kept in microseconds.
\<close>

record datetime =
  dt_micros :: int
  dt_tzinfo :: "int option"

definition utc_now :: "int \<Rightarrow> datetime" where
  "utc_now micros = \<lparr>dt_micros = micros, dt_tzinfo = Some 0\<rparr>"

definition dt_replace_tzinfo_none :: "datetime \<Rightarrow> datetime" where
  "dt_replace_tzinfo_none d = d\<lparr>dt_tzinfo := None\<rparr>"

definition dt_sub :: "datetime \<Rightarrow> datetime \<Rightarrow> py_error + int" where
  "dt_sub a b =
     (case (dt_tzinfo a, dt_tzinfo b) of
        (None, None) \<Rightarrow> Inr (dt_micros a - dt_micros b)
      | (Some oa, Some ob) \<Rightarrow>
          Inr ((dt_micros a - oa * 1000000) - (dt_micros b - ob * 1000000))
      | _ \<Rightarrow> Inl TypeError)"

text \<open>\<^verbatim>\<open>NetAddr\<close> (declared in the protocol module) and \<^verbatim>\<open>NodeInfo\<close>.\<close>

record NetAddr =
  na_ip :: string
  na_port :: int
  na_services :: int
  na_timestamp :: int

record NodeInfo =
  ni_ip :: string
  ni_port :: int
  ni_version :: "string option"
  ni_protocol_version :: "int option"
  ni_services :: "int option"
  ni_start_height :: "int option"
  ni_user_agent :: "string option"
  ni_latency_ms :: "real option"
  ni_status :: string
  ni_first_seen :: datetime
  ni_last_seen :: datetime
  ni_times_seen :: int
  ni_peers :: "NetAddr list"

text \<open>
  The dataclass constructor with its defaults; \<open>now1\<close> and \<open>now2\<close> are the two
  readings the default factories of \<^verbatim>\<open>first_seen\<close> and \<^verbatim>\<open>last_seen\<close> take.
\<close>

definition NodeInfo_default :: "string \<Rightarrow> int \<Rightarrow> datetime \<Rightarrow> datetime \<Rightarrow> NodeInfo" where
  "NodeInfo_default ip port now1 now2 =
     \<lparr>ni_ip = ip, ni_port = port, ni_version = None, ni_protocol_version = None,
      ni_services = None, ni_start_height = None, ni_user_agent = None,
      ni_latency_ms = None, ni_status = ''pending'', ni_first_seen = now1,
      ni_last_seen = now2, ni_times_seen = 1, ni_peers = []\<rparr>"

text \<open>
  The fields of \<^verbatim>\<open>CrawlerConfig\<close> and of the chain configuration that the modelled
  functions read (both classes are declared in the configuration module).
\<close>

record CrawlerConfig =
  max_concurrent :: int
  connection_timeout :: int
  extended_timeout :: int
  max_retries :: int
  fallback_protocol_versions :: "int list option"

record ChainConfig =
  cc_protocol_version :: int
  cc_magic_bytes :: "8 word list"
  cc_p2p_port :: int

definition node_key :: "string \<Rightarrow> int \<Rightarrow> string" where
  "node_key ip port = ip @ '':'' @ py_str_int port"

section \<open>Retry and protocol fallback\<close>

text \<open>
  \<^verbatim>\<open>Crawler._connect_and_handshake\<close>.  The dialer \<^verbatim>\<open>_try_connect_with_protocol\<close> talks
  to the network, so here it is an oracle: its first argument is the number of dials
  already made by this call, the others are the arguments of the source.  The state of
  the two loops is \<^verbatim>\<open>last_result\<close> and \<^verbatim>\<open>last_error\<close>; \<open>rs_dialled\<close> is a ghost
  log of what each dial returned, in order.  The back-off sleeps change no state.
\<close>

type_synonym dialer = "nat \<Rightarrow> string \<Rightarrow> int \<Rightarrow> int \<Rightarrow> int \<Rightarrow> NodeInfo option"

record retry_state =
  rs_last_result :: "NodeInfo option"
  rs_last_error :: "string option"
  rs_dialled :: "NodeInfo option list"

text \<open>\<^verbatim>\<open>result and result.status == st\<close>: a \<^verbatim>\<open>NodeInfo\<close> object is always truthy.\<close>

definition has_status :: "string \<Rightarrow> NodeInfo option \<Rightarrow> bool" where
  "has_status st result = (case result of None \<Rightarrow> False | Some n \<Rightarrow> ni_status n = st)"

text \<open>
  The inner loop over \<^verbatim>\<open>enumerate(protocol_versions)\<close>.  \<open>Some r\<close> in the first
  component is the \<^verbatim>\<open>return result\<close> of the source; \<open>None\<close> means the loop ended, by
  exhaustion or by \<^verbatim>\<open>break\<close>.
\<close>

fun try_protocols ::
  "CrawlerConfig \<Rightarrow> dialer \<Rightarrow> string \<Rightarrow> int \<Rightarrow> nat \<Rightarrow> int list \<Rightarrow> retry_state
     \<Rightarrow> NodeInfo option option \<times> retry_state" where
  "try_protocols cfg dial ip port attempt [] st = (None, st)"
| "try_protocols cfg dial ip port attempt (protocol_version # rest) st =
     (let timeout = (if has_status ''reachable'' (rs_last_result st) \<and> attempt > 0
                     then extended_timeout cfg else connection_timeout cfg);
          result = dial (length (rs_dialled st)) ip port protocol_version timeout;
          st1 = st\<lparr>rs_dialled := rs_dialled st @ [result]\<rparr>
      in if has_status ''up'' result then (Some result, st1)
         else
           (let st2 = st1\<lparr>rs_last_result := result\<rparr>
            in if has_status ''reachable'' result
               then try_protocols cfg dial ip port attempt rest st2
               else if result = None
               then (None, st2\<lparr>rs_last_error := Some ''TCP connection failed''\<rparr>)
               else try_protocols cfg dial ip port attempt rest st2))"

text \<open>The outer loop over \<^verbatim>\<open>range(max_retries + 1)\<close> and the code after it.\<close>

fun retry_loop ::
  "CrawlerConfig \<Rightarrow> dialer \<Rightarrow> string \<Rightarrow> int \<Rightarrow> int list \<Rightarrow> nat list \<Rightarrow> retry_state
     \<Rightarrow> NodeInfo option \<times> retry_state" where
  "retry_loop cfg dial ip port protocol_versions [] st =
     (if has_status ''reachable'' (rs_last_result st) then rs_last_result st else None, st)"
| "retry_loop cfg dial ip port protocol_versions (attempt # attempts) st =
     (case try_protocols cfg dial ip port attempt protocol_versions st of
        (Some result, st') \<Rightarrow> (result, st')
      | (None, st') \<Rightarrow> retry_loop cfg dial ip port protocol_versions attempts st')"

definition connect_and_handshake ::
  "CrawlerConfig \<Rightarrow> ChainConfig \<Rightarrow> dialer \<Rightarrow> string \<Rightarrow> int \<Rightarrow> NodeInfo option \<times> retry_state" where
  "connect_and_handshake cfg chain dial ip port =
     (let fallback_versions =
            (case fallback_protocol_versions cfg of None \<Rightarrow> [] | Some vs \<Rightarrow> vs);
          protocol_versions = cc_protocol_version chain # fallback_versions
      in retry_loop cfg dial ip port protocol_versions [0 ..< nat (max_retries cfg + 1)]
           \<lparr>rs_last_result = None, rs_last_error = None, rs_dialled = []\<rparr>)"

section \<open>Discovery set and the per-node worker\<close>

text \<open>
  The part of the \<^verbatim>\<open>Crawler\<close> object that a pass mutates: \<^verbatim>\<open>nodes\<close>, \<^verbatim>\<open>pending\<close>,
  \<^verbatim>\<open>crawled\<close> and the counters of \<^verbatim>\<open>stats\<close> that the modelled functions update.
\<close>

record crawler_state =
  cs_nodes :: "string \<rightharpoonup> NodeInfo"
  cs_pending :: "string set"
  cs_crawled :: "string set"
  connections_attempted :: int
  connections_successful :: int
  connections_failed :: int
  nodes_discovered :: int
  peers_from_db :: int

text \<open>The loop \<^verbatim>\<open>for peer in node_info.peers\<close> of \<^verbatim>\<open>_crawl_node\<close>, one peer at a time.\<close>

definition admit_peer :: "string option \<Rightarrow> string set \<Rightarrow> string set \<Rightarrow> NetAddr \<Rightarrow> string set" where
  "admit_peer node_env crawled pending peer =
     (let peer_key = node_key (na_ip peer) (na_port peer)
      in if peer_key \<notin> crawled \<and> peer_key \<notin> pending
         then (if is_valid_ip node_env (na_ip peer) then insert peer_key pending else pending)
         else pending)"

fun admit_peers ::
  "string option \<Rightarrow> string set \<Rightarrow> string set \<Rightarrow> NetAddr list \<Rightarrow> string set" where
  "admit_peers node_env crawled pending [] = pending"
| "admit_peers node_env crawled pending (peer # peers) =
     admit_peers node_env crawled (admit_peer node_env crawled pending peer) peers"

text \<open>
  \<^verbatim>\<open>_crawl_node\<close> from \<^verbatim>\<open>self.crawled.add(key)\<close> to its end: what the worker does with
  the result of the dial.  Nothing in this part awaits, so it runs atomically.
  \<open>clock\<close> gives the successive readings of \<^verbatim>\<open>datetime.now(timezone.utc)\<close>.
\<close>

definition crawl_node_record ::
  "string option \<Rightarrow> (nat \<Rightarrow> datetime) \<Rightarrow> string \<Rightarrow> int \<Rightarrow> NodeInfo option
     \<Rightarrow> crawler_state \<Rightarrow> crawler_state" where
  "crawl_node_record node_env clock ip port node_info st =
     (let key = node_key ip port;
          st1 = st\<lparr>cs_crawled := insert key (cs_crawled st)\<rparr>
      in case node_info of
           Some ni \<Rightarrow>
             (let st2 = st1\<lparr>connections_successful := connections_successful st1 + 1\<rparr>;
                  st3 =
                    (case cs_nodes st2 key of
                       Some existing \<Rightarrow>
                         (let e1 = (if ni_status ni = ''up''
                                    then existing\<lparr>ni_version := ni_version ni,
                                           ni_protocol_version := ni_protocol_version ni,
                                           ni_services := ni_services ni,
                                           ni_start_height := ni_start_height ni,
                                           ni_peers := ni_peers ni\<rparr>
                                    else existing);
                              e2 = e1\<lparr>ni_latency_ms := ni_latency_ms ni,
                                     ni_status := ni_status ni,
                                     ni_last_seen := clock 0,
                                     ni_times_seen := ni_times_seen e1 + 1\<rparr>
                          in st2\<lparr>cs_nodes := (cs_nodes st2)(key \<mapsto> e2)\<rparr>)
                     | None \<Rightarrow>
                         st2\<lparr>cs_nodes := (cs_nodes st2)(key \<mapsto> ni),
                            nodes_discovered := nodes_discovered st2 + 1\<rparr>)
              in st3\<lparr>cs_pending :=
                       admit_peers node_env (cs_crawled st3) (cs_pending st3) (ni_peers ni)\<rparr>)
         | None \<Rightarrow>
             (let st2 = st1\<lparr>connections_failed := connections_failed st1 + 1\<rparr>
              in case cs_nodes st2 key of
                   Some existing \<Rightarrow>
                     st2\<lparr>cs_nodes := (cs_nodes st2)(key \<mapsto>
                            existing\<lparr>ni_status := ''down'', ni_last_seen := clock 0\<rparr>)\<rparr>
                 | None \<Rightarrow>
                     st2\<lparr>cs_nodes := (cs_nodes st2)(key \<mapsto>
                            \<lparr>ni_ip = ip, ni_port = port, ni_version = None,
                             ni_protocol_version = None, ni_services = None,
                             ni_start_height = None, ni_user_agent = None,
                             ni_latency_ms = None, ni_status = ''down'',
                             ni_first_seen = clock 1, ni_last_seen = clock 0,
                             ni_times_seen = 0, ni_peers = []\<rparr>),
                          nodes_discovered := nodes_discovered st2 + 1\<rparr>))"

text \<open>
  \<^verbatim>\<open>_crawl_node\<close> from its entry to the dial: the key leaves \<^verbatim>\<open>pending\<close> first, then
  \<^verbatim>\<open>crawled\<close> is tested.  \<open>None\<close> is the early \<^verbatim>\<open>return\<close>; \<open>Some st\<close> is the state in
  which \<^verbatim>\<open>_connect_and_handshake\<close> is awaited.
\<close>

definition crawl_node_begin :: "string \<Rightarrow> int \<Rightarrow> crawler_state \<Rightarrow> crawler_state \<times> bool" where
  "crawl_node_begin ip port st =
     (let key = node_key ip port;
          st1 = st\<lparr>cs_pending := cs_pending st - {key}\<rparr>
      in if key \<in> cs_crawled st1 then (st1, False)
         else (st1\<lparr>connections_attempted := connections_attempted st1 + 1\<rparr>, True))"

text \<open>\<^verbatim>\<open>_crawl_node\<close> run without interruption by another task.\<close>

definition crawl_node ::
  "string option \<Rightarrow> CrawlerConfig \<Rightarrow> ChainConfig \<Rightarrow> dialer \<Rightarrow> (nat \<Rightarrow> datetime)
     \<Rightarrow> string \<Rightarrow> int \<Rightarrow> crawler_state \<Rightarrow> crawler_state" where
  "crawl_node node_env cfg chain dial clock ip port st =
     (case crawl_node_begin ip port st of
        (st1, False) \<Rightarrow> st1
      | (st1, True) \<Rightarrow>
          crawl_node_record node_env clock ip port
            (fst (connect_and_handshake cfg chain dial ip port)) st1)"

section \<open>The local node seen through RPC\<close>

text \<open>
  The answer of \<^verbatim>\<open>getnetworkinfo\<close> is a JSON object.  A key read with
  \<^verbatim>\<open>.get(key, default)\<close> is a \<open>field\<close>: absent (the default is used), \<^verbatim>\<open>null\<close>, or a
  value.  A key read with \<^verbatim>\<open>.get(key)\<close> is an \<open>option\<close>: \<open>None\<close> when absent or null.
\<close>

datatype 'a field = Absent | Null | Val 'a

record local_address =
  la_address :: "string option"
  la_port :: "int option"

record network_info =
  gn_localaddresses :: "local_address list field"
  gn_protocolversion :: "int option"
  gn_subversion :: "string field"

record local_node_info =
  li_local_addresses :: "(string \<times> int) list"
  li_version :: "int option"
  li_subversion :: "string option"

text \<open>
  \<^verbatim>\<open>RPCClient.get_local_node_info\<close>.  Its argument is what \<^verbatim>\<open>getnetworkinfo()\<close>
  gave: an exception, a falsy answer (\<open>Inr None\<close>) or an object.  Iterating over
  \<^verbatim>\<open>null\<close> raises, and every exception makes the function return \<^verbatim>\<open>None\<close>.
\<close>

definition get_local_node_info :: "py_error + network_info option \<Rightarrow> local_node_info option" where
  "get_local_node_info answer =
     (case answer of
        Inl e \<Rightarrow> None
      | Inr None \<Rightarrow> None
      | Inr (Some network_info) \<Rightarrow>
          (case gn_localaddresses network_info of
             Null \<Rightarrow> None
           | addrs_field \<Rightarrow>
               (let addrs = (case addrs_field of Val l \<Rightarrow> l | _ \<Rightarrow> []);
                    local_addresses =
                      concat (map (\<lambda>addr.
                        case (la_address addr, la_port addr) of
                          (Some ip, Some port) \<Rightarrow> if ip \<noteq> [] \<and> port \<noteq> 0 then [(ip, port)] else []
                        | _ \<Rightarrow> []) addrs)
                in Some \<lparr>li_local_addresses = local_addresses,
                         li_version = gn_protocolversion network_info,
                         li_subversion = (case gn_subversion network_info of
                                            Absent \<Rightarrow> Some [] | Null \<Rightarrow> None | Val v \<Rightarrow> Some v)\<rparr>)))"

text \<open>
  The address selection of \<^verbatim>\<open>_mark_rpc_node_as_up\<close>.  \<open>reach ip port\<close> is the outcome
  of \<^verbatim>\<open>_test_address_reachable\<close>, the 3-second TCP probe.  \<^verbatim>\<open>not selected_ip\<close> holds
  when nothing was selected or the selected address is the empty string.
\<close>

definition not_selected :: "(string \<times> int) option \<Rightarrow> bool" where
  "not_selected sel = (case sel of None \<Rightarrow> True | Some (ip, port) \<Rightarrow> ip = [])"

definition select_address ::
  "(string \<Rightarrow> int \<Rightarrow> bool) \<Rightarrow> (string \<times> int) list \<Rightarrow> (string \<times> int) option" where
  "select_address reach addresses =
     (let ipv4_addrs = filter (\<lambda>(ip, port). CHR '':'' \<notin> set ip) addresses;
          ipv6_addrs = filter (\<lambda>(ip, port). CHR '':'' \<in> set ip) addresses;
          sel1 = find (\<lambda>(ip, port). reach ip port) ipv4_addrs;
          sel2 = (if not_selected sel1
                  then (case find (\<lambda>(ip, port). reach ip port) ipv6_addrs of
                          Some a \<Rightarrow> Some a
                        | None \<Rightarrow> sel1)
                  else sel1)
      in if not_selected sel2
         then (case ipv4_addrs of
                 a # _ \<Rightarrow> Some a
               | [] \<Rightarrow> (case ipv6_addrs of a # _ \<Rightarrow> Some a | [] \<Rightarrow> None))
         else sel2)"

text \<open>
  \<^verbatim>\<open>_mark_rpc_node_as_up\<close>.  \<open>rpc\<close> is \<open>None\<close> when no RPC client is configured,
  otherwise what \<^verbatim>\<open>getnetworkinfo()\<close> gave.
\<close>

definition mark_rpc_node_as_up ::
  "(string \<Rightarrow> int \<Rightarrow> bool) \<Rightarrow> (py_error + network_info option) option \<Rightarrow> (nat \<Rightarrow> datetime)
     \<Rightarrow> crawler_state \<Rightarrow> crawler_state" where
  "mark_rpc_node_as_up reach rpc clock st =
     (case rpc of
        None \<Rightarrow> st
      | Some answer \<Rightarrow>
          (case get_local_node_info answer of
             None \<Rightarrow> st
           | Some local_info \<Rightarrow>
               if li_local_addresses local_info = [] then st
               else
                 (let version = li_subversion local_info;
                      protocol_version = li_version local_info;
                      addresses = li_local_addresses local_info
                  in case select_address reach addresses of
                       None \<Rightarrow> st
                     | Some (selected_ip, selected_port) \<Rightarrow>
                         (let key = node_key selected_ip selected_port;
                              node_info =
                                (NodeInfo_default selected_ip selected_port (clock 0) (clock 1))
                                  \<lparr>ni_version := version,
                                   ni_protocol_version := protocol_version,
                                   ni_services := Some 1,
                                   ni_status := ''up'',
                                   ni_latency_ms := Some 1,
                                   ni_user_agent := version\<rparr>
                          in st\<lparr>cs_nodes := (cs_nodes st)(key \<mapsto> node_info),
                                cs_pending := (cs_pending st - {key})
                                   - set (map (\<lambda>(other_ip, other_port). node_key other_ip other_port)
                                            addresses),
                                cs_crawled := insert key (cs_crawled st)\<rparr>))))"

section \<open>Seeding from the persistent store\<close>

text \<open>
  A row of \<^verbatim>\<open>get_all_nodes()\<close>.  \<^verbatim>\<open>last_seen\<close> is a string or a \<^verbatim>\<open>datetime\<close> object;
  \<^verbatim>\<open>datetime.fromisoformat\<close> is a parameter of the model.
\<close>

datatype last_seen_value = LS_str string | LS_datetime datetime

record db_node =
  dn_ip :: "string option"
  dn_port :: "int field"
  dn_status :: "string field"
  dn_last_seen :: "last_seen_value option"

definition py_replace_Z :: "string \<Rightarrow> string" where
  "py_replace_Z s = concat (map (\<lambda>c. if c = CHR ''Z'' then ''+00:00'' else [c]) s)"

text \<open>
  The body of the loop of \<^verbatim>\<open>_seed_from_database\<close> that computes \<^verbatim>\<open>should_crawl\<close>.
  \<open>status\<close> is \<^verbatim>\<open>node.get("status", "unknown")\<close>, \<open>None\<close> for \<^verbatim>\<open>null\<close>.  The difference
  is in microseconds, so \<^verbatim>\<open>minutes_since > 30\<close> is \<open>delta > 30 * 60000000\<close>.  Every
  exception inside the \<^verbatim>\<open>try\<close> sets \<^verbatim>\<open>should_crawl = True\<close>.
\<close>

definition should_crawl ::
  "(string \<Rightarrow> py_error + datetime) \<Rightarrow> int \<Rightarrow> string option \<Rightarrow> last_seen_value option \<Rightarrow> bool" where
  "should_crawl fromisoformat now_micros status last_seen =
     (case last_seen of
        None \<Rightarrow> True
      | Some ls \<Rightarrow>
          if ls = LS_str [] then True
          else
            (case (case ls of
                     LS_str s \<Rightarrow> fromisoformat (py_replace_Z s)
                   | LS_datetime d \<Rightarrow> Inr d) of
               Inl e \<Rightarrow> True
             | Inr last_seen_dt \<Rightarrow>
                 (case dt_sub (utc_now now_micros) (dt_replace_tzinfo_none last_seen_dt) of
                    Inl e \<Rightarrow> True
                  | Inr delta \<Rightarrow>
                      if status = Some ''up'' \<or> status = Some ''reachable'' then True
                      else if status = Some ''down'' \<and> delta > 30 * 60000000 then True
                      else if delta > 10 * 60000000 then True
                      else False)))"

definition db_node_key :: "ChainConfig \<Rightarrow> string \<Rightarrow> int field \<Rightarrow> string" where
  "db_node_key chain ip port_field =
     (case port_field of
        Absent \<Rightarrow> node_key ip (cc_p2p_port chain)
      | Null \<Rightarrow> ip @ '':None''
      | Val port \<Rightarrow> node_key ip port)"

fun seed_nodes ::
  "(string \<Rightarrow> py_error + datetime) \<Rightarrow> ChainConfig \<Rightarrow> (nat \<Rightarrow> int) \<Rightarrow> nat \<Rightarrow> db_node list
     \<Rightarrow> crawler_state \<Rightarrow> crawler_state" where
  "seed_nodes fromisoformat chain now i [] st = st"
| "seed_nodes fromisoformat chain now i (node # rest) st =
     (case dn_ip node of
        None \<Rightarrow> seed_nodes fromisoformat chain now (Suc i) rest st
      | Some ip \<Rightarrow>
          if ip = [] then seed_nodes fromisoformat chain now (Suc i) rest st
          else
            (let key = db_node_key chain ip (dn_port node);
                 status = (case dn_status node of
                             Absent \<Rightarrow> Some ''unknown'' | Null \<Rightarrow> None | Val v \<Rightarrow> Some v)
             in seed_nodes fromisoformat chain now (Suc i) rest
                  (if should_crawl fromisoformat (now i) status (dn_last_seen node)
                   then st\<lparr>cs_pending := insert key (cs_pending st),
                           peers_from_db := peers_from_db st + 1\<rparr>
                   else st)))"

text \<open>
  \<^verbatim>\<open>_seed_from_database\<close>: \<open>db_nodes\<close> is what \<^verbatim>\<open>get_all_nodes()\<close> gave; when it raises,
  the error is logged and nothing is seeded.  \<open>now i\<close> is the clock, in microseconds,
  when row \<open>i\<close> is looked at.
\<close>

definition seed_from_database ::
  "(string \<Rightarrow> py_error + datetime) \<Rightarrow> ChainConfig \<Rightarrow> (nat \<Rightarrow> int) \<Rightarrow> py_error + db_node list
     \<Rightarrow> crawler_state \<Rightarrow> crawler_state" where
  "seed_from_database fromisoformat chain now db_nodes st =
     (case db_nodes of
        Inl e \<Rightarrow> st
      | Inr nodes \<Rightarrow> seed_nodes fromisoformat chain now 0 nodes st)"

section \<open>The peer dialer\<close>

text \<open>
  Modelled from the spec: \<^verbatim>\<open>parse_message\<close> of the protocol module, which is not among
  the sources.  A frame is 4 bytes of network magic, 12 bytes of command padded with
  zero bytes, the payload length as 4 little-endian bytes, 4 bytes of checksum (not
  verified) and the payload.  Fewer than 24 bytes, fewer bytes than the header
  announces, or another magic raise \<^verbatim>\<open>ValueError\<close>; otherwise the command, the payload
  and the bytes after the frame are returned.  The command is kept as bytes and
  compared with the ASCII bytes of the command names.
\<close>

definition le32 :: "8 word list \<Rightarrow> nat" where
  "le32 bs = foldr (\<lambda>b n. unat b + 256 * n) bs 0"

definition ascii :: "string \<Rightarrow> 8 word list" where
  "ascii s = map of_char s"

definition parse_message ::
  "8 word list \<Rightarrow> 8 word list \<Rightarrow> py_error + (8 word list \<times> 8 word list \<times> 8 word list)" where
  "parse_message data magic =
     (if length data < 24 then Inl ValueError
      else if take 4 data \<noteq> magic then Inl ValueError
      else
        (let payload_length = le32 (take 4 (drop 16 data))
         in if length data < 24 + payload_length then Inl ValueError
            else Inr (takeWhile (\<lambda>b. b \<noteq> 0) (take 12 (drop 4 data)),
                      take payload_length (drop 24 data),
                      drop (24 + payload_length) data)))"

lemma parse_message_shorter:
  "parse_message data magic = Inr (command, payload, rest) \<Longrightarrow> length rest < length data"
  by (auto simp: parse_message_def Let_def split: if_splits)

text \<open>
  What \<^verbatim>\<open>parse_version_payload\<close> returns.  The two payload parsers are parameters of
  the model: they return a value or raise.
\<close>

record version_data =
  vd_version :: int
  vd_services :: int
  vd_start_height :: int
  vd_user_agent :: string

text \<open>
  One \<^verbatim>\<open>await asyncio.wait_for(reader.read(65536), ...)\<close>: bytes (none when the peer
  closed the connection), \<^verbatim>\<open>asyncio.TimeoutError\<close>, or another exception.
\<close>

datatype read_result = Data "8 word list" | ReadTimeout | ReadFailed

text \<open>
  What the network does during one call of \<^verbatim>\<open>_try_connect_with_protocol\<close>.
  \<open>de_connect\<close> is \<open>None\<close> when \<^verbatim>\<open>open_connection\<close> raises or times out, otherwise the
  reading of \<^verbatim>\<open>time.time()\<close> right after it.  \<open>de_version_sent\<close>, \<open>de_verack_sent\<close>
  and \<open>de_getaddr_sent\<close> say whether building and sending that message went through
  without an exception.  \<open>de_version_reads\<close> and \<open>de_addr_reads\<close> are the outcomes, in
  order, of the reads that the two reading loops get to make before their deadline;
  a loop that has used them all leaves because its deadline has passed.
\<close>

record dial_env =
  de_start_time :: real
  de_connect :: "real option"
  de_version_sent :: bool
  de_version_reads :: "read_result list"
  de_verack_sent :: bool
  de_handshake_time :: real
  de_getaddr_sent :: bool
  de_addr_reads :: "read_result list"
  de_clock :: "nat \<Rightarrow> datetime"

text \<open>\<^verbatim>\<open>len(data) >= 24\<close> and \<^verbatim>\<open>len(data) >= 24 + length\<close>: a whole frame is buffered.\<close>

definition have_complete_message :: "8 word list \<Rightarrow> bool" where
  "have_complete_message data =
     (length data \<ge> 24 \<and> length data \<ge> 24 + le32 (take 4 (drop 16 data)))"

text \<open>The loop that reads the answer to the version message.\<close>

fun read_version_loop :: "read_result list \<Rightarrow> 8 word list \<Rightarrow> py_error + 8 word list" where
  "read_version_loop [] data = Inr data"
| "read_version_loop (r # rest) data =
     (case r of
        Data chunk \<Rightarrow>
          if chunk = [] then Inr data
          else if have_complete_message (data @ chunk) then Inr (data @ chunk)
          else read_version_loop rest (data @ chunk)
      | ReadTimeout \<Rightarrow>
          if have_complete_message data then Inr data
          else read_version_loop rest data
      | ReadFailed \<Rightarrow> Inl OSError)"

text \<open>
  The loop \<^verbatim>\<open>while remaining\<close> that decodes the buffered frames.  A \<^verbatim>\<open>ValueError\<close>
  leaves the loop; any other exception leaves the function.
\<close>

function parse_version_frames ::
  "8 word list \<Rightarrow> (8 word list \<Rightarrow> py_error + version_data) \<Rightarrow> bool \<Rightarrow> 8 word list
     \<Rightarrow> NodeInfo \<Rightarrow> bool \<Rightarrow> bool \<Rightarrow> py_error + (NodeInfo \<times> bool \<times> bool)" where
  "parse_version_frames magic parse_version_payload verack_sent remaining node_info
       received_version received_verack =
     (if remaining = [] then Inr (node_info, received_version, received_verack)
      else
        (case parse_message remaining magic of
           Inl e \<Rightarrow> Inr (node_info, received_version, received_verack)
         | Inr (command, payload, rest) \<Rightarrow>
             if command = ascii ''version'' then
               (case parse_version_payload payload of
                  Inl e \<Rightarrow>
                    if e = ValueError then Inr (node_info, received_version, received_verack)
                    else Inl e
                | Inr version_data \<Rightarrow>
                    if verack_sent
                    then parse_version_frames magic parse_version_payload verack_sent rest
                           (node_info\<lparr>ni_version := Some (vd_user_agent version_data),
                                      ni_protocol_version := Some (vd_version version_data),
                                      ni_services := Some (vd_services version_data),
                                      ni_start_height := Some (vd_start_height version_data),
                                      ni_user_agent := Some (vd_user_agent version_data)\<rparr>)
                           True received_verack
                    else Inl OSError)
             else if command = ascii ''verack''
             then parse_version_frames magic parse_version_payload verack_sent rest
                    node_info received_version True
             else parse_version_frames magic parse_version_payload verack_sent rest
                    node_info received_version received_verack))"
  by pat_completeness auto
termination
  by (relation "measure (\<lambda>(magic, pv, vs, remaining, ni, rv, rk). length remaining)")
     (auto dest: parse_message_shorter)

text \<open>
  The inner loop of the address wait: \<open>Some peers\<close> when an \<^verbatim>\<open>addr\<close> frame was parsed,
  with the bytes kept in \<^verbatim>\<open>buffer\<close> for the next chunk.
\<close>

function parse_addr_frames ::
  "8 word list \<Rightarrow> (8 word list \<Rightarrow> py_error + NetAddr list) \<Rightarrow> 8 word list
     \<Rightarrow> py_error + (NetAddr list option \<times> 8 word list)" where
  "parse_addr_frames magic parse_addr_payload remaining =
     (if remaining = [] then Inr (None, [])
      else
        (case parse_message remaining magic of
           Inl e \<Rightarrow> Inr (None, remaining)
         | Inr (command, payload, rest) \<Rightarrow>
             if command = ascii ''addr'' then
               (case parse_addr_payload payload of
                  Inl e \<Rightarrow> if e = ValueError then Inr (None, rest) else Inl e
                | Inr peers \<Rightarrow> Inr (Some peers, []))
             else parse_addr_frames magic parse_addr_payload rest))"
  by pat_completeness auto
termination
  by (relation "measure (\<lambda>(magic, pa, remaining). length remaining)")
     (auto dest: parse_message_shorter)

text \<open>
  The address wait: \<open>Some peers\<close> when \<^verbatim>\<open>node_info.peers\<close> was assigned.  An exception
  in it is caught and logged, and the node stays up.
\<close>

fun addr_read_loop ::
  "8 word list \<Rightarrow> (8 word list \<Rightarrow> py_error + NetAddr list) \<Rightarrow> read_result list
     \<Rightarrow> 8 word list \<Rightarrow> NetAddr list option" where
  "addr_read_loop magic parse_addr_payload [] buffer = None"
| "addr_read_loop magic parse_addr_payload (r # rest) buffer =
     (case r of
        Data chunk \<Rightarrow>
          if chunk = [] then None
          else
            (case parse_addr_frames magic parse_addr_payload (buffer @ chunk) of
               Inl e \<Rightarrow> None
             | Inr (Some peers, buffer') \<Rightarrow> Some peers
             | Inr (None, buffer') \<Rightarrow> addr_read_loop magic parse_addr_payload rest buffer')
      | ReadTimeout \<Rightarrow> addr_read_loop magic parse_addr_payload rest buffer
      | ReadFailed \<Rightarrow> None)"

definition reachable_node :: "string \<Rightarrow> int \<Rightarrow> datetime \<Rightarrow> datetime \<Rightarrow> real \<Rightarrow> NodeInfo" where
  "reachable_node ip port now1 now2 tcp_latency =
     (NodeInfo_default ip port now1 now2)
       \<lparr>ni_status := ''reachable'', ni_latency_ms := Some tcp_latency\<rparr>"

text \<open>
  \<^verbatim>\<open>Crawler._try_connect_with_protocol\<close>.  Both \<^verbatim>\<open>except\<close> clauses around the body
  return \<^verbatim>\<open>None\<close>, so every exception that leaves the body gives \<open>None\<close>.  The
  protocol version and the timeout act on the network only; the counter
  \<^verbatim>\<open>peers_from_p2p\<close> is not modelled.
\<close>

definition try_connect_with_protocol ::
  "ChainConfig \<Rightarrow> (8 word list \<Rightarrow> py_error + version_data)
     \<Rightarrow> (8 word list \<Rightarrow> py_error + NetAddr list) \<Rightarrow> dial_env
     \<Rightarrow> string \<Rightarrow> int \<Rightarrow> int \<Rightarrow> int \<Rightarrow> NodeInfo option" where
  "try_connect_with_protocol chain parse_version_payload parse_addr_payload env
       ip port protocol_version timeout =
     (case de_connect env of
        None \<Rightarrow> None
      | Some connected_at \<Rightarrow>
          (let tcp_latency = (connected_at - de_start_time env) * 1000
           in if \<not> de_version_sent env then None
              else
                (case read_version_loop (de_version_reads env) [] of
                   Inl e \<Rightarrow> None
                 | Inr data \<Rightarrow>
                     if data = []
                     then Some (reachable_node ip port (de_clock env 0) (de_clock env 1) tcp_latency)
                     else
                       (case parse_version_frames (cc_magic_bytes chain) parse_version_payload
                               (de_verack_sent env) data
                               (NodeInfo_default ip port (de_clock env 0) (de_clock env 1))
                               False False of
                          Inl e \<Rightarrow> None
                        | Inr (node_info, received_version, received_verack) \<Rightarrow>
                            if \<not> received_version
                            then Some (reachable_node ip port (de_clock env 2) (de_clock env 3)
                                         tcp_latency)
                            else
                              (let node_info1 = node_info
                                     \<lparr>ni_latency_ms :=
                                        Some ((de_handshake_time env - de_start_time env) * 1000),
                                      ni_status := ''up''\<rparr>
                               in if \<not> de_getaddr_sent env then None
                                  else
                                    (case addr_read_loop (cc_magic_bytes chain) parse_addr_payload
                                            (de_addr_reads env) [] of
                                       None \<Rightarrow> Some node_info1
                                     | Some peers \<Rightarrow> Some (node_info1\<lparr>ni_peers := peers\<rparr>)))))))"

section \<open>A crawl pass\<close>

text \<open>
  What is fixed during a pass, and the dialer that the workers use: call \<open>n\<close> of a
  worker meets the network \<open>world n protocol_version timeout\<close>.
\<close>

record pass_params =
  pp_node_env :: "string option"
  pp_cfg :: CrawlerConfig
  pp_chain :: ChainConfig
  pp_parse_version :: "8 word list \<Rightarrow> py_error + version_data"
  pp_parse_addr :: "8 word list \<Rightarrow> py_error + NetAddr list"

definition network_dialer :: "pass_params \<Rightarrow> (nat \<Rightarrow> int \<Rightarrow> int \<Rightarrow> dial_env) \<Rightarrow> dialer" where
  "network_dialer P world n ip port protocol_version timeout =
     try_connect_with_protocol (pp_chain P) (pp_parse_version P) (pp_parse_addr P)
       (world n protocol_version timeout) ip port protocol_version timeout"

text \<open>
  The seeding phase of \<^verbatim>\<open>run_single_pass\<close>: the three collections are cleared, then
  the store, the RPC peer list, the local node, the DNS seeds and the configured seeds
  are consulted in this order.  \<^verbatim>\<open>_seed_from_rpc\<close>, \<^verbatim>\<open>_seed_from_dns\<close> and
  \<^verbatim>\<open>_seed_from_config\<close> only add keys to \<^verbatim>\<open>pending\<close>; the keys they add are the
  parameters \<open>rpc_keys\<close> and \<open>seed_keys\<close>.
\<close>

definition pass_seed ::
  "(string \<Rightarrow> py_error + datetime) \<Rightarrow> ChainConfig \<Rightarrow> (nat \<Rightarrow> int) \<Rightarrow> py_error + db_node list
     \<Rightarrow> string set \<Rightarrow> (string \<Rightarrow> int \<Rightarrow> bool) \<Rightarrow> (py_error + network_info option) option
     \<Rightarrow> (nat \<Rightarrow> datetime) \<Rightarrow> string set \<Rightarrow> crawler_state \<Rightarrow> crawler_state" where
  "pass_seed fromisoformat chain now db_nodes rpc_keys reach rpc clock seed_keys st =
     (let st0 = st\<lparr>cs_nodes := Map.empty, cs_crawled := {}, cs_pending := {},
                  peers_from_db := 0\<rparr>;
          st1 = seed_from_database fromisoformat chain now db_nodes st0;
          st2 = st1\<lparr>cs_pending := cs_pending st1 \<union> rpc_keys\<rparr>;
          st3 = mark_rpc_node_as_up reach rpc clock st2
      in st3\<lparr>cs_pending := cs_pending st3 \<union> seed_keys\<rparr>)"

text \<open>
  \<^verbatim>\<open>_crawl_pending\<close> with its tasks.  Tasks run on one event loop, so a task runs
  alone from one \<^verbatim>\<open>await\<close> to the next, and the steps of a pass are: a batch of keys
  of \<^verbatim>\<open>pending\<close> is turned into tasks (only when no task of the previous batch is
  left, since \<^verbatim>\<open>gather\<close> is awaited); a task runs from its entry up to the call of
  \<^verbatim>\<open>_connect_and_handshake\<close>; a task gets the result of that call and runs to its end.
  A key stands for the pair that \<^verbatim>\<open>_crawl_pending\<close> splits it into and from which
  \<^verbatim>\<open>_crawl_node\<close> builds it again.  \<open>ps_calls\<close> is a ghost counter of the calls of
  \<^verbatim>\<open>_connect_and_handshake\<close> per key.
\<close>

datatype task_phase = Created | Dialling

record pass_state =
  ps_crawler :: crawler_state
  ps_tasks :: "string \<rightharpoonup> task_phase"
  ps_calls :: "string \<Rightarrow> nat"

definition pass_start :: "crawler_state \<Rightarrow> pass_state" where
  "pass_start st = \<lparr>ps_crawler = st, ps_tasks = Map.empty, ps_calls = (\<lambda>k. 0)\<rparr>"

inductive pass_step :: "pass_params \<Rightarrow> pass_state \<Rightarrow> pass_state \<Rightarrow> bool"
  for P :: pass_params where
  spawn:
    "ps_tasks s = Map.empty \<Longrightarrow> finite batch \<Longrightarrow> batch \<subseteq> cs_pending (ps_crawler s) \<Longrightarrow>
     pass_step P s (s\<lparr>ps_tasks := (\<lambda>k. if k \<in> batch then Some Created else None)\<rparr>)"
| start:
    "ps_tasks s key = Some Created \<Longrightarrow> node_key ip port = key \<Longrightarrow>
     crawl_node_begin ip port (ps_crawler s) = (st1, go) \<Longrightarrow>
     pass_step P s
       (s\<lparr>ps_crawler := st1,
          ps_tasks := (ps_tasks s)(key := if go then Some Dialling else None),
          ps_calls := (ps_calls s)(key := if go then Suc (ps_calls s key) else ps_calls s key)\<rparr>)"
| finish:
    "ps_tasks s key = Some Dialling \<Longrightarrow> node_key ip port = key \<Longrightarrow>
     result = fst (connect_and_handshake (pp_cfg P) (pp_chain P) (network_dialer P world) ip port) \<Longrightarrow>
     pass_step P s
       (s\<lparr>ps_crawler := crawl_node_record (pp_node_env P) clock ip port result (ps_crawler s),
          ps_tasks := (ps_tasks s)(key := None)\<rparr>)"

definition pass_reaches :: "pass_params \<Rightarrow> pass_state \<Rightarrow> pass_state \<Rightarrow> bool" where
  "pass_reaches P s0 s = (pass_step P)\<^sup>*\<^sup>* s0 s"

section \<open>Example inputs\<close>

definition ex_now :: datetime where
  "ex_now = utc_now 0"

definition ex_clock :: "nat \<Rightarrow> datetime" where
  "ex_clock i = utc_now (int i)"

definition ex_cfg :: CrawlerConfig where
  "ex_cfg = \<lparr>max_concurrent = 10, connection_timeout = 10, extended_timeout = 30,
             max_retries = 1, fallback_protocol_versions = None\<rparr>"

text \<open>No retry, one fallback protocol version.\<close>

definition ex_cfg_fallback :: CrawlerConfig where
  "ex_cfg_fallback = \<lparr>max_concurrent = 10, connection_timeout = 10, extended_timeout = 30,
                      max_retries = 0, fallback_protocol_versions = Some [70015]\<rparr>"

definition ex_chain :: ChainConfig where
  "ex_chain = \<lparr>cc_protocol_version = 70016, cc_magic_bytes = [192, 192, 192, 192],
               cc_p2p_port = 8333\<rparr>"

definition ex_private_peer :: NetAddr where
  "ex_private_peer = \<lparr>na_ip = ''10.0.0.1'', na_port = 8333, na_services = 1, na_timestamp = 0\<rparr>"

definition ex_reachable :: NodeInfo where
  "ex_reachable = reachable_node ''198.51.100.5'' 8333 ex_now ex_now 12"

text \<open>A target that accepts TCP without answering on the first dial and refuses afterwards.\<close>

definition ex_dial_fading :: dialer where
  "ex_dial_fading n ip port protocol_version timeout = (if n = 0 then Some ex_reachable else None)"

text \<open>A target that never accepts TCP.\<close>

definition ex_dial_refused :: dialer where
  "ex_dial_refused n ip port protocol_version timeout = None"

text \<open>A target that accepts TCP and never answers.\<close>

definition ex_dial_mute :: dialer where
  "ex_dial_mute n ip port protocol_version timeout = Some ex_reachable"

text \<open>A crawler state right after the collections were cleared.\<close>

definition ex_state0 :: crawler_state where
  "ex_state0 = \<lparr>cs_nodes = Map.empty, cs_pending = {}, cs_crawled = {},
                connections_attempted = 0, connections_successful = 0,
                connections_failed = 0, nodes_discovered = 0, peers_from_db = 0\<rparr>"

text \<open>
  A local node that lists an IPv6 address before an IPv4 address, none of which
  answers the TCP probe.
\<close>

definition ex_probe_fails :: "string \<Rightarrow> int \<Rightarrow> bool" where
  "ex_probe_fails ip port = False"

definition ex_network_info :: network_info where
  "ex_network_info =
     \<lparr>gn_localaddresses = Val [\<lparr>la_address = Some ''2001:db8::1'', la_port = Some 8333\<rparr>,
                                \<lparr>la_address = Some ''203.0.113.9'', la_port = Some 8333\<rparr>],
      gn_protocolversion = Some 70016,
      gn_subversion = Val ''/Satoshi:25.0.0/''\<rparr>"

text \<open>The same answer without the key \<^verbatim>\<open>protocolversion\<close>.\<close>

definition ex_network_info_bare :: network_info where
  "ex_network_info_bare = ex_network_info\<lparr>gn_protocolversion := None\<rparr>"

text \<open>
  Two rows of the store for nodes that were down five minutes before the clock reading
  \<open>ex_five_minutes\<close>: one carries \<^verbatim>\<open>last_seen\<close> as a \<^verbatim>\<open>datetime\<close>, one as a string.
\<close>

definition ex_five_minutes :: "nat \<Rightarrow> int" where
  "ex_five_minutes i = 300000000"

definition ex_down_node :: db_node where
  "ex_down_node = \<lparr>dn_ip = Some ''203.0.113.7'', dn_port = Val 8333,
                   dn_status = Val ''down'', dn_last_seen = Some (LS_datetime (utc_now 0))\<rparr>"

definition ex_down_node_str :: db_node where
  "ex_down_node_str = \<lparr>dn_ip = Some ''203.0.113.8'', dn_port = Absent,
                       dn_status = Val ''down'',
                       dn_last_seen = Some (LS_str ''1970-01-01T00:00:00Z'')\<rparr>"

text \<open>
  The answer of \<^verbatim>\<open>getnetworkinfo\<close> names the node when it carries a protocol version
  and its \<^verbatim>\<open>subversion\<close> is not \<^verbatim>\<open>null\<close>.
\<close>

definition rpc_version_known :: "(py_error + network_info option) option \<Rightarrow> bool" where
  "rpc_version_known rpc =
     (case rpc of
        Some (Inr (Some network_info)) \<Rightarrow>
          gn_protocolversion network_info \<noteq> None \<and> gn_subversion network_info \<noteq> Null
      | _ \<Rightarrow> True)"

text \<open>A peer that accepts TCP, stays silent for two read timeouts and closes.\<close>

definition ex_env_mute :: dial_env where
  "ex_env_mute =
     \<lparr>de_start_time = 100, de_connect = Some 101, de_version_sent = True,
      de_version_reads = [ReadTimeout, ReadTimeout, Data []], de_verack_sent = True,
      de_handshake_time = 102, de_getaddr_sent = True, de_addr_reads = [],
      de_clock = ex_clock\<rparr>"

text \<open>A peer that resets the connection instead of answering.\<close>

definition ex_env_reset :: dial_env where
  "ex_env_reset = ex_env_mute\<lparr>de_version_reads := [ReadFailed]\<rparr>"

text \<open>A peer that accepts TCP and to which the version message cannot be sent.\<close>

definition ex_env_send_fails :: dial_env where
  "ex_env_send_fails = ex_env_mute\<lparr>de_version_sent := False\<rparr>"

text \<open>
  A peer that answers with one version frame (empty payload, decoded by the parameter
  \<open>ex_parse_version\<close>) and never sends addresses.
\<close>

definition ex_version_frame :: "8 word list" where
  "ex_version_frame =
     [192, 192, 192, 192] @ ascii ''version'' @ [0, 0, 0, 0, 0] @ [0, 0, 0, 0] @ [93, 246, 224, 226]"

definition ex_env_handshake :: dial_env where
  "ex_env_handshake = ex_env_mute\<lparr>de_version_reads := [Data ex_version_frame]\<rparr>"

definition ex_parse_version :: "8 word list \<Rightarrow> py_error + version_data" where
  "ex_parse_version payload =
     Inr \<lparr>vd_version = 70016, vd_services = 1, vd_start_height = 800000,
          vd_user_agent = ''/Satoshi:25.0.0/''\<rparr>"

definition ex_parse_addr :: "8 word list \<Rightarrow> py_error + NetAddr list" where
  "ex_parse_addr payload = Inr []"

definition ex_params :: pass_params where
  "ex_params = \<lparr>pp_node_env = None, pp_cfg = ex_cfg, pp_chain = ex_chain,
                pp_parse_version = ex_parse_version, pp_parse_addr = ex_parse_addr\<rparr>"

definition ex_world :: "nat \<Rightarrow> int \<Rightarrow> int \<Rightarrow> dial_env" where
  "ex_world n protocol_version timeout = ex_env_handshake"

definition ex_fromisoformat :: "string \<Rightarrow> py_error + datetime" where
  "ex_fromisoformat s = Inl ValueError"

section \<open>Invariants of a pass\<close>

text \<open>Every entry of \<^verbatim>\<open>nodes\<close> with status up carries a protocol version and a user agent.\<close>

definition up_nodes_named :: "crawler_state \<Rightarrow> bool" where
  "up_nodes_named st =
     (\<forall>key n. cs_nodes st key = Some n \<longrightarrow> ni_status n = ''up'' \<longrightarrow>
        ni_protocol_version n \<noteq> None \<and> ni_user_agent n \<noteq> None)"

text \<open>
  Only crawled keys have an entry, and the key of a task that is dialling is not
  crawled yet.
\<close>

definition pass_inv :: "pass_state \<Rightarrow> bool" where
  "pass_inv s =
     (dom (cs_nodes (ps_crawler s)) \<subseteq> cs_crawled (ps_crawler s)
      \<and> (\<forall>key. ps_tasks s key = Some Dialling \<longrightarrow> key \<notin> cs_crawled (ps_crawler s))
      \<and> up_nodes_named (ps_crawler s))"

text \<open>
  A key for which \<^verbatim>\<open>_connect_and_handshake\<close> was called was called once, and is crawled
  or still being dialled.
\<close>

definition calls_inv :: "pass_state \<Rightarrow> bool" where
  "calls_inv s =
     (\<forall>key. ps_calls s key \<le> 1
        \<and> (ps_calls s key = 1 \<longrightarrow>
             key \<in> cs_crawled (ps_crawler s) \<or> ps_tasks s key = Some Dialling))"

text \<open>A pass seeded with one configured address, and its state after that address answered.\<close>

definition ex_seeded :: crawler_state where
  "ex_seeded = pass_seed ex_fromisoformat ex_chain ex_five_minutes (Inr []) {} ex_probe_fails
                 None ex_clock {''198.51.100.5:8333''} ex_state0"

definition ex_handshaken :: NodeInfo where
  "ex_handshaken = (NodeInfo_default ''198.51.100.5'' 8333 (ex_clock 0) (ex_clock 1))
     \<lparr>ni_version := Some ''/Satoshi:25.0.0/'', ni_protocol_version := Some 70016,
      ni_services := Some 1, ni_start_height := Some 800000,
      ni_user_agent := Some ''/Satoshi:25.0.0/'', ni_latency_ms := Some 2000,
      ni_status := ''up''\<rparr>"

definition ex_pass_end :: pass_state where
  "ex_pass_end =
     \<lparr>ps_crawler = ex_state0\<lparr>cs_nodes := [''198.51.100.5:8333'' \<mapsto> ex_handshaken],
                              cs_crawled := {''198.51.100.5:8333''},
                              connections_attempted := 1,
                              connections_successful := 1,
                              nodes_discovered := 1\<rparr>,
      ps_tasks = Map.empty,
      ps_calls = (\<lambda>k. 0)(''198.51.100.5:8333'' := 1)\<rparr>"

text \<open>
  Only crawled keys have an entry in \<^verbatim>\<open>nodes\<close>, and the key of a task that is dialling
  is not crawled yet.
\<close>

definition entries_crawled :: "pass_state \<Rightarrow> bool" where
  "entries_crawled s =
     (dom (cs_nodes (ps_crawler s)) \<subseteq> cs_crawled (ps_crawler s)
      \<and> (\<forall>key. ps_tasks s key = Some Dialling \<longrightarrow> key \<notin> cs_crawled (ps_crawler s)))"

text \<open>
  A pass seeded with two addresses, dialled in one batch.  The second peer completes
  the handshake and answers the address request with the address of the first, while
  the first is still being dialled; then the first completes its handshake.  At the end
  of the batch the key of the first peer is in \<^verbatim>\<open>crawled\<close>, has an entry, and is in
  \<^verbatim>\<open>pending\<close> again.
\<close>

definition ex_peer_a :: NetAddr where
  "ex_peer_a = \<lparr>na_ip = ''198.51.100.5'', na_port = 8333, na_services = 1, na_timestamp = 0\<rparr>"

definition ex_parse_addr_gossip :: "8 word list \<Rightarrow> py_error + NetAddr list" where
  "ex_parse_addr_gossip payload = Inr [ex_peer_a]"

definition ex_params_gossip :: pass_params where
  "ex_params_gossip = \<lparr>pp_node_env = None, pp_cfg = ex_cfg, pp_chain = ex_chain,
                       pp_parse_version = ex_parse_version,
                       pp_parse_addr = ex_parse_addr_gossip\<rparr>"

definition ex_addr_frame :: "8 word list" where
  "ex_addr_frame =
     [192, 192, 192, 192] @ ascii ''addr'' @ [0, 0, 0, 0, 0, 0, 0, 0] @ [0, 0, 0, 0]
       @ [93, 246, 224, 226]"

definition ex_env_gossip :: dial_env where
  "ex_env_gossip = ex_env_handshake\<lparr>de_addr_reads := [Data ex_addr_frame]\<rparr>"

definition ex_world_gossip :: "nat \<Rightarrow> int \<Rightarrow> int \<Rightarrow> dial_env" where
  "ex_world_gossip n protocol_version timeout = ex_env_gossip"

definition ex_seeded_two :: crawler_state where
  "ex_seeded_two = pass_seed ex_fromisoformat ex_chain ex_five_minutes (Inr []) {} ex_probe_fails
                     None ex_clock {''198.51.100.5:8333'', ''203.0.113.7:8333''} ex_state0"

definition ex_gossiper :: NodeInfo where
  "ex_gossiper = (NodeInfo_default ''203.0.113.7'' 8333 (ex_clock 0) (ex_clock 1))
     \<lparr>ni_version := Some ''/Satoshi:25.0.0/'', ni_protocol_version := Some 70016,
      ni_services := Some 1, ni_start_height := Some 800000,
      ni_user_agent := Some ''/Satoshi:25.0.0/'', ni_latency_ms := Some 2000,
      ni_status := ''up'', ni_peers := [ex_peer_a]\<rparr>"

definition ex_race_end :: pass_state where
  "ex_race_end =
     \<lparr>ps_crawler = ex_state0\<lparr>cs_nodes := [''203.0.113.7:8333'' \<mapsto> ex_gossiper,
                                           ''198.51.100.5:8333'' \<mapsto> ex_handshaken],
                              cs_pending := {''198.51.100.5:8333''},
                              cs_crawled := {''198.51.100.5:8333'', ''203.0.113.7:8333''},
                              connections_attempted := 2,
                              connections_successful := 2,
                              nodes_discovered := 2\<rparr>,
      ps_tasks = Map.empty,
      ps_calls = (\<lambda>k. 0)(''198.51.100.5:8333'' := 1, ''203.0.113.7:8333'' := 1)\<rparr>"

section \<open>Facts about the string primitives\<close>

lemma py_split_no_sep: "d \<notin> set p \<Longrightarrow> py_split d p = [p]"
  by (induction p) auto

lemma py_split_append: "d \<notin> set p \<Longrightarrow> py_split d (p @ d # rest) = p # py_split d rest"
  by (induction p) auto

lemma digit_not_space: "py_isdigit c \<Longrightarrow> \<not> py_int_isspace c"
  by (auto simp: py_isdigit_def py_int_isspace_def)

lemma digit_not_special:
  "py_isdigit c \<Longrightarrow> c \<noteq> CHR ''.'' \<and> c \<noteq> CHR '':'' \<and> c \<noteq> CHR ''-'' \<and> c \<noteq> CHR ''+''"
  by (auto simp: py_isdigit_def)

lemma py_int_strip_digits:
  assumes ne: "s \<noteq> []" and ds: "list_all py_isdigit s"
  shows "py_int_strip s = s"
proof -
  from ne ds have "\<not> py_int_isspace (hd s)"
    by (cases s) (auto simp: digit_not_space)
  with ne have front: "dropWhile py_int_isspace s = s"
    by (cases s) auto
  from ne ds have "\<not> py_int_isspace (hd (rev s))"
    by (simp add: hd_rev list_all_iff digit_not_space)
  with ne have "dropWhile py_int_isspace (rev s) = rev s"
    by (cases "rev s") auto
  with front show ?thesis by (simp add: py_int_strip_def)
qed

lemma int_body_rest_digits: "list_all py_isdigit s \<Longrightarrow> int_body_rest s"
  by (induction s) auto

lemma py_int_digits:
  assumes ne: "s \<noteq> []" and ds: "list_all py_isdigit s" and short: "length s \<le> 4300"
  shows "py_int s = Inr (digits_val s)"
proof -
  from ne obtain c cs where s: "s = c # cs" by (cases s) auto
  with ds have c: "py_isdigit c" and cs: "list_all py_isdigit cs" by auto
  have keep: "filter py_isdigit s = s" using ds by (simp add: list_all_iff)
  have body: "int_body s" using c cs s by (simp add: int_body_def int_body_rest_digits)
  from c have sign: "c \<noteq> CHR ''-''" "c \<noteq> CHR ''+''" using digit_not_special by blast+
  have "py_int s =
          (if int_body s \<and> length (filter py_isdigit s) \<le> int_max_str_digits
           then Inr (digits_val (filter py_isdigit s)) else Inl ValueError)"
    using py_int_strip_digits[OF ne ds] sign s by (simp add: py_int_def Let_def)
  with body keep short show ?thesis by (simp add: int_max_str_digits_def)
qed

lemma digits_no_sep: "list_all py_isdigit s \<Longrightarrow> CHR ''.'' \<notin> set s \<and> CHR '':'' \<notin> set s"
  using digit_not_special by (auto simp: list_all_iff)

lemma split_quad:
  assumes "list_all py_isdigit a" "list_all py_isdigit b"
    and "list_all py_isdigit c" "list_all py_isdigit d"
  shows "py_split (CHR ''.'') (a @ ''.'' @ b @ ''.'' @ c @ ''.'' @ d) = [a, b, c, d]"
  using assms by (simp add: py_split_append py_split_no_sep digits_no_sep)

lemma quad_no_colon:
  assumes "list_all py_isdigit a" "list_all py_isdigit b"
    and "list_all py_isdigit c" "list_all py_isdigit d"
  shows "CHR '':'' \<notin> set (a @ ''.'' @ b @ ''.'' @ c @ ''.'' @ d)"
  using assms by (simp add: digits_no_sep)

lemma is_valid_ip_quad:
  assumes "a \<noteq> []" "b \<noteq> []" "c \<noteq> []" "d \<noteq> []"
    and "list_all py_isdigit a" "list_all py_isdigit b"
    and "list_all py_isdigit c" "list_all py_isdigit d"
    and "length a \<le> 4300" "length b \<le> 4300" "length c \<le> 4300" "length d \<le> 4300"
  shows "is_valid_ip node_env (a @ ''.'' @ b @ ''.'' @ c @ ''.'' @ d) =
     (if digits_val a = 10 \<or> (digits_val a = 172 \<and> 16 \<le> digits_val b \<and> digits_val b \<le> 31)
         \<or> (digits_val a = 192 \<and> digits_val b = 168) \<or> digits_val a = 127
      then is_development node_env
      else digits_val a \<noteq> 0)"
proof -
  have "map_err py_int [a, b, c, d] = Inr [digits_val a, digits_val b, digits_val c, digits_val d]"
    using assms by (simp add: py_int_digits)
  then show ?thesis
    using split_quad[OF assms(5-8)] quad_no_colon[OF assms(5-8)]
    unfolding is_valid_ip_def by (simp add: Let_def)
qed

lemma is_development_unset: "\<not> is_development None"
  by (simp add: is_development_def py_lower_def)

lemma is_development_set: "is_development (Some ''development'')"
  by (simp add: is_development_def py_lower_def py_lower_char_def)

lemmas py_int_eval =
  py_int_def py_int_strip_def py_int_isspace_def int_max_str_digits_def int_body_def
  py_isdigit_def digits_val_def digit_val_def

text \<open>\<^verbatim>\<open>int\<close> refuses a leading file separator, which \<^verbatim>\<open>str.strip\<close> would drop.\<close>

lemma py_int_file_separator:
  "(of_char (Char False False True True True False False False) :: nat) = 28
   \<and> py_int [Char False False True True True False False False, CHR ''8''] = Inl ValueError"
  by (simp add: py_int_eval)

lemma valid_10_0_0_1: "is_valid_ip node_env ''10.0.0.1'' = is_development node_env"
  by (simp add: is_valid_ip_def py_int_eval)

lemma key_10_0_0_1: "node_key ''10.0.0.1'' 8333 = ''10.0.0.1:8333''"
  by (simp add: node_key_def py_str_int_def)

section \<open>Version comparison\<close>

lemmas normalize_eval =
  normalize_version_def py_lstrip_def py_strip_def py_isspace_def part_number_def
  py_isdigit_def digits_val_def digit_val_def

lemma normalize_version_length: "length (normalize_version v) = 4"
  by (simp add: normalize_version_def Let_def)

lemma versions_match_refl: "versions_match v v"
  by (simp add: versions_match_def)

lemma versions_match_padding: "versions_match ''1.18.0'' ''1.18.0.0''"
  by (simp add: versions_match_def normalize_eval)

lemma versions_match_v_prefix: "versions_match ''v1.18.0'' ''1.18.0''"
  by (simp add: versions_match_def normalize_eval)

text \<open>
  C3.  The claim says that only the leading digits of a component count, so that
  \<^verbatim>\<open>_versions_match("1.18.0rc1", "1.18.0")\<close> is true.  The code keeps every digit of
  the component: the third component \<^verbatim>\<open>0rc1\<close> becomes \<^verbatim>\<open>int("01") = 1\<close>, the two
  versions normalize to different tuples and the comparison is false.
\<close>

theorem C3_rc_suffix_is_not_ignored:
  "normalize_version ''1.18.0rc1'' = [1, 18, 1, 0]
   \<and> normalize_version ''1.18.0'' = [1, 18, 0, 0]
   \<and> \<not> versions_match ''1.18.0rc1'' ''1.18.0''"
  by (simp add: versions_match_def normalize_eval)

section \<open>IP validity filter\<close>

text \<open>
  C8 (as amended).  For a dotted quad of four non-empty runs of at most 4300 decimal
  digits (every well-formed quad is one), \<^verbatim>\<open>_is_valid_ip\<close> returns false when the first
  number is 0; when the quad is in 10/8, 172.16/12, 192.168/16 or 127/8 it returns true
  exactly when \<^verbatim>\<open>NODE_ENV\<close> is set and reads \<^verbatim>\<open>development\<close> once lower-cased; and it
  returns true otherwise.  A discovered peer 10.0.0.1:8333 leaves \<^verbatim>\<open>pending\<close> as it is
  when \<^verbatim>\<open>NODE_ENV\<close> is unset, and its key is in \<^verbatim>\<open>pending\<close> afterwards when
  \<^verbatim>\<open>NODE_ENV=development\<close> and the key is not crawled.
\<close>

theorem C8_ipv4_filter:
  assumes "a \<noteq> []" "b \<noteq> []" "c \<noteq> []" "d \<noteq> []"
    and "list_all py_isdigit a" "list_all py_isdigit b"
    and "list_all py_isdigit c" "list_all py_isdigit d"
    and "length a \<le> 4300" "length b \<le> 4300" "length c \<le> 4300" "length d \<le> 4300"
    and "na_ip peer = ''10.0.0.1''" "na_port peer = 8333"
  shows "is_valid_ip node_env (a @ ''.'' @ b @ ''.'' @ c @ ''.'' @ d) =
           (if digits_val a = 0 then False
            else if digits_val a = 10
                    \<or> (digits_val a = 172 \<and> 16 \<le> digits_val b \<and> digits_val b \<le> 31)
                    \<or> (digits_val a = 192 \<and> digits_val b = 168)
                    \<or> digits_val a = 127
            then (\<exists>v. node_env = Some v \<and> py_lower v = ''development'')
            else True)
         \<and> admit_peers None crawled pending [peer] = pending
         \<and> (''10.0.0.1:8333'' \<notin> crawled \<longrightarrow>
              ''10.0.0.1:8333'' \<in> admit_peers (Some ''development'') crawled pending [peer])"
proof -
  have flag: "is_development node_env =
             (\<exists>v. node_env = Some v \<and> py_lower v = ''development'')"
    by (cases node_env) (auto simp: is_development_def py_lower_def)
  have quad: "is_valid_ip node_env (a @ ''.'' @ b @ ''.'' @ c @ ''.'' @ d) =
           (if digits_val a = 0 then False
            else if digits_val a = 10
                    \<or> (digits_val a = 172 \<and> 16 \<le> digits_val b \<and> digits_val b \<le> 31)
                    \<or> (digits_val a = 192 \<and> digits_val b = 168)
                    \<or> digits_val a = 127
            then (\<exists>v. node_env = Some v \<and> py_lower v = ''development'')
            else True)"
    using is_valid_ip_quad[OF assms(1-12)] flag by auto
  have unset: "admit_peers None crawled pending [peer] = pending"
    using assms(13) by (simp add: admit_peer_def Let_def valid_10_0_0_1 is_development_unset)
  have dev: "''10.0.0.1:8333'' \<in> admit_peers (Some ''development'') crawled pending [peer]"
    if "''10.0.0.1:8333'' \<notin> crawled"
    using that assms(13,14)
    by (simp add: admit_peer_def Let_def valid_10_0_0_1 is_development_set key_10_0_0_1)
  from quad unset dev show ?thesis by blast
qed

theorem C8_ipv4_filter_witness:
  "\<not> is_valid_ip None ''10.0.0.1''
   \<and> is_valid_ip (Some ''development'') ''172.16.0.1''
   \<and> \<not> is_valid_ip (Some ''development'') ''0.1.2.3''
   \<and> is_valid_ip None ''8.8.8.8''
   \<and> admit_peers None {} {} [ex_private_peer] = {}
   \<and> ''10.0.0.1:8333'' \<in> admit_peers (Some ''development'') {} {} [ex_private_peer]"
proof -
  have p: "na_ip ex_private_peer = ''10.0.0.1''" "na_port ex_private_peer = 8333"
    by (simp_all add: ex_private_peer_def)
  have d: "list_all py_isdigit ''10''" "list_all py_isdigit ''0''" "list_all py_isdigit ''1''"
    "list_all py_isdigit ''172''" "list_all py_isdigit ''16''" "list_all py_isdigit ''2''"
    "list_all py_isdigit ''3''" "list_all py_isdigit ''8''"
    by (simp_all add: py_isdigit_def)
  have v: "digits_val ''10'' = 10" "digits_val ''0'' = 0" "digits_val ''172'' = 172"
    "digits_val ''16'' = 16" "digits_val ''8'' = 8"
    by (simp_all add: digits_val_def digit_val_def)
  have low: "py_lower ''development'' = ''development''"
    by (simp add: py_lower_def py_lower_char_def)
  have "\<not> is_valid_ip None ''10.0.0.1''"
    using C8_ipv4_filter[of "''10''" "''0''" "''0''" "''1''" ex_private_peer None "{}" "{}"] p d v
    by simp
  moreover have "is_valid_ip (Some ''development'') ''172.16.0.1''"
    using C8_ipv4_filter[of "''172''" "''16''" "''0''" "''1''" ex_private_peer
        "Some ''development''" "{}" "{}"] p d v low
    by simp
  moreover have "\<not> is_valid_ip (Some ''development'') ''0.1.2.3''"
    using C8_ipv4_filter[of "''0''" "''1''" "''2''" "''3''" ex_private_peer
        "Some ''development''" "{}" "{}"] p d v
    by simp
  moreover have "is_valid_ip None ''8.8.8.8''"
    using C8_ipv4_filter[of "''8''" "''8''" "''8''" "''8''" ex_private_peer None "{}" "{}"] p d v
    by simp
  moreover have "admit_peers None {} {} [ex_private_peer] = {}
      \<and> ''10.0.0.1:8333'' \<in> admit_peers (Some ''development'') {} {} [ex_private_peer]"
    using C8_ipv4_filter[of "''10''" "''0''" "''0''" "''1''" ex_private_peer None "{}" "{}"] p d
    by simp
  ultimately show ?thesis by blast
qed

text \<open>
  C8, the claim as stated fails: the value of \<^verbatim>\<open>NODE_ENV\<close> is lower-cased before the
  comparison, so with \<^verbatim>\<open>NODE_ENV=DEVELOPMENT\<close>, which is not the string \<^verbatim>\<open>development\<close>, the
  private address 10.0.0.1 is accepted.
\<close>

theorem C8_upper_case_development:
  "''DEVELOPMENT'' \<noteq> ''development'' \<and> is_valid_ip (Some ''DEVELOPMENT'') ''10.0.0.1''"
  by (simp add: valid_10_0_0_1 is_development_def py_lower_def py_lower_char_def)

text \<open>
  C9.  The claim says that every address of fc00::/7 and of fe80::/10 is rejected, for
  example fd12:3456::1 and fe9f::1.  The code compares the text with the four prefixes
  \<^verbatim>\<open>::1\<close>, \<^verbatim>\<open>fe80:\<close>, \<^verbatim>\<open>fc00:\<close> and \<^verbatim>\<open>fd00:\<close>, and accepts both addresses.
\<close>

theorem C9_unique_local_address_accepted:
  "is_valid_ip None ''fd12:3456::1'' \<and> is_valid_ip None ''fe9f::1''"
  by (simp add: is_valid_ip_def py_startswith_def)

lemma is_valid_ip_v6:
  "CHR '':'' \<in> set ip \<Longrightarrow>
   is_valid_ip node_env ip =
     (\<not> (py_startswith ip ''::1'' \<or> py_startswith ip ''fe80:''
         \<or> py_startswith ip ''fc00:'' \<or> py_startswith ip ''fd00:''))"
  by (simp add: is_valid_ip_def)

section \<open>Retry and protocol fallback\<close>

lemma try_protocols_last:
  assumes "try_protocols cfg dial ip port attempt pvs st = (out, st')"
    and "(rs_dialled st = [] \<and> rs_last_result st = None)
         \<or> (rs_dialled st \<noteq> [] \<and> rs_last_result st = last (rs_dialled st))"
  shows "case out of
           Some r \<Rightarrow> rs_dialled st' \<noteq> [] \<and> r = last (rs_dialled st') \<and> has_status ''up'' r
         | None \<Rightarrow> (rs_dialled st' = [] \<and> rs_last_result st' = None)
                    \<or> (rs_dialled st' \<noteq> [] \<and> rs_last_result st' = last (rs_dialled st'))"
  using assms
proof (induction pvs arbitrary: st)
  case Nil
  then show ?case by auto
next
  case (Cons pv pvs)
  then show ?case by (auto simp: Let_def split: if_splits)
qed

lemma retry_loop_last:
  assumes "retry_loop cfg dial ip port pvs attempts st = (result, st')"
    and "(rs_dialled st = [] \<and> rs_last_result st = None)
         \<or> (rs_dialled st \<noteq> [] \<and> rs_last_result st = last (rs_dialled st))"
    and "\<forall>r \<in> set (rs_dialled st'). \<not> has_status ''up'' r"
  shows "result = (if rs_dialled st' \<noteq> [] \<and> has_status ''reachable'' (last (rs_dialled st'))
                   then last (rs_dialled st') else None)"
  using assms
proof (induction attempts arbitrary: st)
  case Nil
  then show ?case by (auto simp: has_status_def)
next
  case (Cons attempt attempts)
  obtain out st1 where inner: "try_protocols cfg dial ip port attempt pvs st = (out, st1)"
    by (cases "try_protocols cfg dial ip port attempt pvs st") auto
  note fact = try_protocols_last[OF inner Cons.prems(2)]
  show ?case
  proof (cases out)
    case None
    with inner Cons.prems(1) have "retry_loop cfg dial ip port pvs attempts st1 = (result, st')"
      by simp
    moreover from fact None
    have "(rs_dialled st1 = [] \<and> rs_last_result st1 = None)
          \<or> (rs_dialled st1 \<noteq> [] \<and> rs_last_result st1 = last (rs_dialled st1))"
      by simp
    ultimately show ?thesis using Cons.IH Cons.prems(3) by blast
  next
    case (Some r)
    with inner Cons.prems(1) have "st' = st1" by simp
    with fact Some have "rs_dialled st' \<noteq> []" "has_status ''up'' (last (rs_dialled st'))"
      by auto
    with Cons.prems(3) show ?thesis using last_in_set by blast
  qed
qed

text \<open>Whatever \<^verbatim>\<open>_connect_and_handshake\<close> returns is \<^verbatim>\<open>None\<close> or the answer of a dial.\<close>

lemma try_protocols_answers:
  assumes "try_protocols cfg dial ip port attempt pvs st = (out, st')"
    and "Q None" and "\<And>n pv t. Q (dial n ip port pv t)"
    and "Q (rs_last_result st)"
  shows "Q (rs_last_result st') \<and> (case out of None \<Rightarrow> True | Some r \<Rightarrow> Q r)"
  using assms
proof (induction pvs arbitrary: st)
  case Nil
  then show ?case by auto
next
  case (Cons pv pvs)
  then show ?case by (auto simp: Let_def split: if_splits)
qed

lemma retry_loop_answers:
  assumes "retry_loop cfg dial ip port pvs attempts st = (result, st')"
    and "Q None" and "\<And>n pv t. Q (dial n ip port pv t)"
    and "Q (rs_last_result st)"
  shows "Q result"
  using assms
proof (induction attempts arbitrary: st)
  case Nil
  then show ?case by (auto split: if_splits)
next
  case (Cons attempt attempts)
  obtain out st1 where inner: "try_protocols cfg dial ip port attempt pvs st = (out, st1)"
    by (cases "try_protocols cfg dial ip port attempt pvs st") auto
  note fact = try_protocols_answers[where Q = Q, OF inner Cons.prems(2) Cons.prems(3) Cons.prems(4)]
  show ?case
  proof (cases out)
    case None
    with inner Cons.prems(1) have "retry_loop cfg dial ip port pvs attempts st1 = (result, st')"
      by simp
    with fact Cons.IH[of st1] Cons.prems(2,3) show ?thesis by blast
  next
    case (Some r)
    with inner Cons.prems(1) have "result = r" by simp
    with fact Some show ?thesis by simp
  qed
qed

lemma connect_and_handshake_answers:
  assumes "Q None" and "\<And>n pv t. Q (dial n ip port pv t)"
  shows "Q (fst (connect_and_handshake cfg chain dial ip port))"
proof -
  obtain result st where run: "connect_and_handshake cfg chain dial ip port = (result, st)"
    by (cases "connect_and_handshake cfg chain dial ip port") auto
  then obtain pvs attempts where
    "retry_loop cfg dial ip port pvs attempts
       \<lparr>rs_last_result = None, rs_last_error = None, rs_dialled = []\<rparr> = (result, st)"
    by (auto simp: connect_and_handshake_def Let_def)
  from retry_loop_answers[where Q = Q, OF this assms(1) assms(2)] assms(1) run
  show ?thesis by simp
qed

lemma upt_two: "[0 ..< 2] = [0, Suc 0]"
  by (simp add: numeral_2_eq_2)

lemmas retry_eval =
  connect_and_handshake_def ex_cfg_def ex_chain_def has_status_def ex_reachable_def
  reachable_node_def NodeInfo_default_def Let_def upt_two

text \<open>
  What \<^verbatim>\<open>_connect_and_handshake\<close> computes when no dial returned up: the answer of its
  last dial if that was a reachable record, and \<^verbatim>\<open>None\<close> otherwise.
\<close>

lemma returns_last_dial:
  assumes "connect_and_handshake cfg chain dial ip port = (result, st)"
    and "\<forall>r \<in> set (rs_dialled st). \<not> has_status ''up'' r"
  shows "result = (if rs_dialled st \<noteq> [] \<and> has_status ''reachable'' (last (rs_dialled st))
                   then last (rs_dialled st) else None)"
proof -
  from assms(1) obtain pvs attempts where
    run: "retry_loop cfg dial ip port pvs attempts
            \<lparr>rs_last_result = None, rs_last_error = None, rs_dialled = []\<rparr> = (result, st)"
    by (auto simp: connect_and_handshake_def Let_def)
  show ?thesis
    by (rule retry_loop_last[OF run _ assms(2)]) simp
qed

text \<open>
  C1.  The claim, like the docstring of \<^verbatim>\<open>_connect_and_handshake\<close>, says that a target
  for which some dial returned a reachable record and none returned up is returned as
  reachable.  The code overwrites \<^verbatim>\<open>last_result\<close> at every dial, also with \<^verbatim>\<open>None\<close>:
  a target that is reachable on the first dial and refuses TCP on the second is
  returned as \<^verbatim>\<open>None\<close>, when the two dials are two attempts (\<^verbatim>\<open>max_retries = 1\<close>) and
  when they are the two protocol versions of a single attempt.
\<close>

theorem C1_early_reachable_is_lost:
  "ex_dial_fading 0 ''198.51.100.5'' 8333 70016 10 = Some ex_reachable
   \<and> ni_status ex_reachable = ''reachable''
   \<and> rs_dialled (snd (connect_and_handshake ex_cfg ex_chain ex_dial_fading ''198.51.100.5'' 8333))
       = [Some ex_reachable, None]
   \<and> fst (connect_and_handshake ex_cfg ex_chain ex_dial_fading ''198.51.100.5'' 8333) = None
   \<and> rs_dialled (snd (connect_and_handshake ex_cfg_fallback ex_chain ex_dial_fading
                         ''198.51.100.5'' 8333))
       = [Some ex_reachable, None]
   \<and> fst (connect_and_handshake ex_cfg_fallback ex_chain ex_dial_fading ''198.51.100.5'' 8333)
       = None"
  by (simp add: retry_eval ex_cfg_fallback_def ex_dial_fading_def)

section \<open>The per-node worker\<close>

lemma key_198: "node_key ''198.51.100.5'' 8333 = ''198.51.100.5:8333''"
  by (simp add: node_key_def py_str_int_def)

section \<open>The local node seen through RPC\<close>

lemma local_addresses_truthy:
  assumes "get_local_node_info answer = Some info"
    and "(ip, port) \<in> set (li_local_addresses info)"
  shows "ip \<noteq> []"
  using assms
  by (auto simp: get_local_node_info_def Let_def
      split: sum.splits option.splits field.splits if_splits)

lemma find_in_list: "find p xs = Some a \<Longrightarrow> a \<in> set xs"
  by (induction xs) (auto split: if_splits)

lemma select_address_truthy:
  assumes "\<forall>(ip, port) \<in> set addresses. ip \<noteq> []" and "addresses \<noteq> []"
  shows "select_address reach addresses =
     (case find (\<lambda>(ip, port). reach ip port)
             (filter (\<lambda>(ip, port). CHR '':'' \<notin> set ip) addresses) of
        Some a \<Rightarrow> Some a
      | None \<Rightarrow>
          (case find (\<lambda>(ip, port). reach ip port)
                  (filter (\<lambda>(ip, port). CHR '':'' \<in> set ip) addresses) of
             Some a \<Rightarrow> Some a
           | None \<Rightarrow>
               (case filter (\<lambda>(ip, port). CHR '':'' \<notin> set ip) addresses of
                  a # _ \<Rightarrow> Some a
                | [] \<Rightarrow> Some (hd addresses))))"
proof -
  let ?v4 = "filter (\<lambda>(ip, port). CHR '':'' \<notin> set ip) addresses"
  let ?v6 = "filter (\<lambda>(ip, port). CHR '':'' \<in> set ip) addresses"
  let ?r = "\<lambda>(ip, port). reach ip port"
  have truthy: "\<not> not_selected (Some a)" if "a \<in> set addresses" for a
    using that assms(1) by (cases a) (auto simp: not_selected_def)
  have none: "not_selected None" by (simp add: not_selected_def)
  have all6: "?v6 = addresses" if "?v4 = []"
  proof -
    from that have "\<forall>a \<in> set addresses. \<not> (\<lambda>(ip, port). CHR '':'' \<notin> set ip) a"
      by (simp add: filter_empty_conv)
    then show ?thesis by (auto intro!: filter_True)
  qed
  show ?thesis
  proof (cases "find ?r ?v4")
    case (Some a)
    then have "a \<in> set addresses" using find_in_list by fastforce
    with Some truthy show ?thesis by (simp add: select_address_def Let_def)
  next
    case v4: None
    show ?thesis
    proof (cases "find ?r ?v6")
      case (Some a)
      then have "a \<in> set addresses" using find_in_list by fastforce
      with Some v4 truthy none show ?thesis by (simp add: select_address_def Let_def)
    next
      case v6: None
      show ?thesis
      proof (cases ?v4)
        case Nil
        with all6 have "?v6 = addresses" by simp
        with assms(2) obtain a rest where "?v6 = a # rest" "hd addresses = a"
          by (cases addresses) auto
        with v4 v6 none Nil show ?thesis by (simp add: select_address_def Let_def)
      next
        case (Cons a rest)
        with v4 v6 none show ?thesis by (simp add: select_address_def Let_def)
      qed
    qed
  qed
qed

lemma select_address_member:
  assumes "select_address reach addresses = Some a"
  shows "a \<in> set addresses"
proof -
  have f: "find p (filter q addresses) = Some b \<Longrightarrow> b \<in> set addresses" for p q b
    using find_in_list by fastforce
  have h: "filter q addresses = b # rest \<Longrightarrow> b \<in> set addresses" for q b rest
    by (metis filter_is_subset list.set_intros(1) subsetD)
  from assms show ?thesis
    by (auto simp: select_address_def Let_def not_selected_def
        split: if_splits option.splits list.splits dest: f h)
qed

lemma ex_local_info:
  "get_local_node_info (Inr (Some ex_network_info)) =
     Some \<lparr>li_local_addresses = [(''2001:db8::1'', 8333), (''203.0.113.9'', 8333)],
           li_version = Some 70016, li_subversion = Some ''/Satoshi:25.0.0/''\<rparr>"
  by (simp add: get_local_node_info_def ex_network_info_def)

lemma key_203_9: "node_key ''203.0.113.9'' 8333 = ''203.0.113.9:8333''"
  by (simp add: node_key_def py_str_int_def)

lemma key_2001: "node_key ''2001:db8::1'' 8333 = ''2001:db8::1:8333''"
  by (simp add: node_key_def py_str_int_def)

lemma ex_selected:
  "select_address ex_probe_fails [(''2001:db8::1'', 8333), (''203.0.113.9'', 8333)]
     = Some (''203.0.113.9'', 8333)"
  by (simp add: select_address_def ex_probe_fails_def not_selected_def)

text \<open>
  C7 (as amended).  With a non-empty address list, \<^verbatim>\<open>_mark_rpc_node_as_up\<close> selects one
  listed address: the first IPv4 address that answers the TCP probe, else the first
  IPv6 address that answers, else the first IPv4 address, else (no IPv4 address is
  listed) the first address.  It stores that address as an up node built from the RPC
  data, without a handshake, puts its key into \<^verbatim>\<open>crawled\<close>, and removes the keys of all
  listed addresses from \<^verbatim>\<open>pending\<close>.
\<close>

theorem C7_local_node_marked_up:
  assumes "get_local_node_info answer = Some info"
    and "li_local_addresses info = addresses"
    and "addresses \<noteq> []"
  shows "\<exists>ip port.
           (ip, port) \<in> set addresses
         \<and> Some (ip, port) =
             (case find (\<lambda>(ip, port). reach ip port)
                     (filter (\<lambda>(ip, port). CHR '':'' \<notin> set ip) addresses) of
                Some a \<Rightarrow> Some a
              | None \<Rightarrow>
                  (case find (\<lambda>(ip, port). reach ip port)
                          (filter (\<lambda>(ip, port). CHR '':'' \<in> set ip) addresses) of
                     Some a \<Rightarrow> Some a
                   | None \<Rightarrow>
                       (case filter (\<lambda>(ip, port). CHR '':'' \<notin> set ip) addresses of
                          a # _ \<Rightarrow> Some a
                        | [] \<Rightarrow> Some (hd addresses))))
         \<and> cs_nodes (mark_rpc_node_as_up reach (Some answer) clock st) =
             (cs_nodes st)(node_key ip port \<mapsto>
                (NodeInfo_default ip port (clock 0) (clock 1))
                  \<lparr>ni_version := li_subversion info,
                   ni_protocol_version := li_version info,
                   ni_services := Some 1,
                   ni_status := ''up'',
                   ni_latency_ms := Some 1,
                   ni_user_agent := li_subversion info\<rparr>)
         \<and> node_key ip port \<in> cs_crawled (mark_rpc_node_as_up reach (Some answer) clock st)
         \<and> cs_pending (mark_rpc_node_as_up reach (Some answer) clock st) =
             (cs_pending st - {node_key ip port})
               - set (map (\<lambda>(other_ip, other_port). node_key other_ip other_port) addresses)"
proof -
  have truthy: "\<forall>(ip, port) \<in> set addresses. ip \<noteq> []"
    using local_addresses_truthy[OF assms(1)] assms(2) by auto
  note sel = select_address_truthy[OF truthy assms(3), of reach]
  have "\<exists>a. select_address reach addresses = Some a"
    unfolding sel by (simp split: option.splits list.splits)
  then obtain ip port where chosen: "select_address reach addresses = Some (ip, port)"
    by (metis surj_pair)
  have member: "(ip, port) \<in> set addresses" by (rule select_address_member[OF chosen])
  have run: "mark_rpc_node_as_up reach (Some answer) clock st =
             st\<lparr>cs_nodes := (cs_nodes st)(node_key ip port \<mapsto>
                    (NodeInfo_default ip port (clock 0) (clock 1))
                      \<lparr>ni_version := li_subversion info,
                       ni_protocol_version := li_version info,
                       ni_services := Some 1,
                       ni_status := ''up'',
                       ni_latency_ms := Some 1,
                       ni_user_agent := li_subversion info\<rparr>),
                cs_pending := (cs_pending st - {node_key ip port})
                   - set (map (\<lambda>(other_ip, other_port). node_key other_ip other_port) addresses),
                cs_crawled := insert (node_key ip port) (cs_crawled st)\<rparr>"
    using assms chosen by (simp add: mark_rpc_node_as_up_def Let_def)
  have which: "Some (ip, port) =
             (case find (\<lambda>(ip, port). reach ip port)
                     (filter (\<lambda>(ip, port). CHR '':'' \<notin> set ip) addresses) of
                Some a \<Rightarrow> Some a
              | None \<Rightarrow>
                  (case find (\<lambda>(ip, port). reach ip port)
                          (filter (\<lambda>(ip, port). CHR '':'' \<in> set ip) addresses) of
                     Some a \<Rightarrow> Some a
                   | None \<Rightarrow>
                       (case filter (\<lambda>(ip, port). CHR '':'' \<notin> set ip) addresses of
                          a # _ \<Rightarrow> Some a
                        | [] \<Rightarrow> Some (hd addresses))))"
    using chosen sel by simp
  show ?thesis
    apply (rule exI[where x = ip])
    apply (rule exI[where x = port])
    apply (intro conjI)
        apply (rule member)
       apply (rule which)
      apply (simp add: run)
     apply (simp add: run)
    apply (simp add: run)
    done
qed

theorem C7_local_node_marked_up_witness:
  "map_option ni_status
     (cs_nodes (mark_rpc_node_as_up ex_probe_fails (Some (Inr (Some ex_network_info)))
                  ex_clock (ex_state0\<lparr>cs_pending := {''2001:db8::1:8333'', ''192.0.2.1:8333''}\<rparr>))
        ''203.0.113.9:8333'') = Some ''up''
   \<and> ''203.0.113.9:8333'' \<in>
       cs_crawled (mark_rpc_node_as_up ex_probe_fails (Some (Inr (Some ex_network_info)))
                  ex_clock (ex_state0\<lparr>cs_pending := {''2001:db8::1:8333'', ''192.0.2.1:8333''}\<rparr>))
   \<and> cs_pending (mark_rpc_node_as_up ex_probe_fails (Some (Inr (Some ex_network_info)))
                 ex_clock (ex_state0\<lparr>cs_pending := {''2001:db8::1:8333'', ''192.0.2.1:8333''}\<rparr>))
     = {''192.0.2.1:8333''}"
proof -
  let ?st = "ex_state0\<lparr>cs_pending := {''2001:db8::1:8333'', ''192.0.2.1:8333''}\<rparr>"
  let ?st' = "mark_rpc_node_as_up ex_probe_fails (Some (Inr (Some ex_network_info))) ex_clock ?st"
  have ne: "[(''2001:db8::1'', 8333::int), (''203.0.113.9'', 8333)] \<noteq> []" by simp
  from C7_local_node_marked_up[OF ex_local_info _ ne, of ex_probe_fails ex_clock ?st]
  obtain ip port where
    sel: "Some (ip, port) = Some (''203.0.113.9'', 8333::int)"
    and nodes: "cs_nodes ?st' =
       (cs_nodes ?st)(node_key ip port \<mapsto>
              (NodeInfo_default ip port (ex_clock 0) (ex_clock 1))
                \<lparr>ni_version := Some ''/Satoshi:25.0.0/'',
                 ni_protocol_version := Some 70016,
                 ni_services := Some 1,
                 ni_status := ''up'',
                 ni_latency_ms := Some 1,
                 ni_user_agent := Some ''/Satoshi:25.0.0/''\<rparr>)"
    and crawled: "node_key ip port \<in> cs_crawled ?st'"
    and pending: "cs_pending ?st' = (cs_pending ?st - {node_key ip port})
             - set (map (\<lambda>(other_ip, other_port). node_key other_ip other_port)
                      [(''2001:db8::1'', 8333), (''203.0.113.9'', 8333)])"
    by (auto simp: ex_probe_fails_def)
  from sel have which: "ip = ''203.0.113.9''" "port = 8333" by simp_all
  have "map_option ni_status (cs_nodes ?st' ''203.0.113.9:8333'') = Some ''up''"
    using nodes which by (simp add: key_203_9)
  moreover have "''203.0.113.9:8333'' \<in> cs_crawled ?st'"
    using crawled which by (simp add: key_203_9)
  moreover have "cs_pending ?st' = {''192.0.2.1:8333''}"
    using pending which by (simp add: key_203_9 key_2001 ex_state0_def)
  ultimately show ?thesis by blast
qed

text \<open>
  C7, the claim as stated fails: for a local node that lists an IPv6 address first and an
  IPv4 address second, neither answering the probe, the code does not fall back to the
  first listed address: it selects the IPv4 address and stores the node under its key.
\<close>

theorem C7_fallback_prefers_ipv4:
  "get_local_node_info (Inr (Some ex_network_info)) =
     Some \<lparr>li_local_addresses = [(''2001:db8::1'', 8333), (''203.0.113.9'', 8333)],
           li_version = Some 70016, li_subversion = Some ''/Satoshi:25.0.0/''\<rparr>
   \<and> hd [(''2001:db8::1'', 8333::int), (''203.0.113.9'', 8333)] = (''2001:db8::1'', 8333)
   \<and> select_address ex_probe_fails [(''2001:db8::1'', 8333), (''203.0.113.9'', 8333)]
       = Some (''203.0.113.9'', 8333)
   \<and> dom (cs_nodes (mark_rpc_node_as_up ex_probe_fails (Some (Inr (Some ex_network_info)))
                       ex_clock ex_state0)) = {''203.0.113.9:8333''}"
  by (simp add: ex_local_info ex_selected mark_rpc_node_as_up_def Let_def key_203_9 ex_state0_def)

text \<open>
  The loop over the other addresses of the local node only removes their keys from
  \<^verbatim>\<open>pending\<close>: the key of the address that was not selected is not in \<^verbatim>\<open>crawled\<close>, so a
  later address response can put it into \<^verbatim>\<open>pending\<close> again.
\<close>

lemma other_address_stays_uncrawled:
  "cs_crawled (mark_rpc_node_as_up ex_probe_fails (Some (Inr (Some ex_network_info)))
                 ex_clock ex_state0) = {''203.0.113.9:8333''}"
  by (simp add: ex_local_info ex_selected mark_rpc_node_as_up_def Let_def key_203_9 ex_state0_def)

section \<open>Seeding from the persistent store\<close>

lemma dt_sub_now_naive:
  "dt_sub (utc_now now_micros) (dt_replace_tzinfo_none d) = Inl TypeError"
  by (simp add: dt_sub_def utc_now_def dt_replace_tzinfo_none_def)

text \<open>
  The subtraction in \<^verbatim>\<open>_seed_from_database\<close> always mixes an aware and a naive value, so
  the status and the thresholds are never looked at.
\<close>

lemma should_crawl_always: "should_crawl fromisoformat now_micros status last_seen"
  by (simp add: should_crawl_def dt_sub_now_naive split: option.splits sum.splits last_seen_value.splits)

text \<open>
  C4.  The claim says that a node that is down is seeded only when more than 30 minutes
  have passed since \<^verbatim>\<open>last_seen\<close>.  The code computes \<^verbatim>\<open>minutes_since\<close> as
  \<^verbatim>\<open>datetime.now(timezone.utc) - last_seen_dt.replace(tzinfo=None)\<close>, an aware value minus
  a naive one, which raises \<^verbatim>\<open>TypeError\<close>; the handler sets \<^verbatim>\<open>should_crawl = True\<close>.  Two
  nodes that were down five minutes ago are both seeded, whatever \<^verbatim>\<open>fromisoformat\<close>
  returns.
\<close>

theorem C4_recent_down_node_is_seeded:
  "cs_pending (seed_from_database fromisoformat ex_chain ex_five_minutes
                 (Inr [ex_down_node, ex_down_node_str]) ex_state0)
     = {''203.0.113.7:8333'', ''203.0.113.8:8333''}"
  by (simp add: seed_from_database_def ex_down_node_def ex_down_node_str_def should_crawl_always
      db_node_key_def node_key_def py_str_int_def ex_chain_def ex_state0_def Let_def) auto

section \<open>The peer dialer\<close>

declare parse_version_frames.simps [simp del]
declare parse_addr_frames.simps [simp del]

lemma read_version_loop_silent:
  assumes "\<forall>r \<in> set reads. r = ReadTimeout \<or> r = Data []"
  shows "read_version_loop reads [] = Inr []"
  using assms by (induction reads) (auto simp: have_complete_message_def)

text \<open>
  When the connect succeeds, the version message is sent, and every read before the
  deadline times out or returns no bytes, the dial returns a reachable record whose
  latency is the measured TCP connect latency.
\<close>

lemma silent_peer_is_reachable:
  assumes "de_connect env = Some connected_at"
    and "de_version_sent env"
    and "\<forall>r \<in> set (de_version_reads env). r = ReadTimeout \<or> r = Data []"
  shows "\<exists>n. try_connect_with_protocol chain parse_version_payload parse_addr_payload env
                ip port protocol_version timeout = Some n
            \<and> ni_status n = ''reachable''
            \<and> ni_latency_ms n = Some ((connected_at - de_start_time env) * 1000)
            \<and> ni_ip n = ip \<and> ni_port n = port"
  using assms read_version_loop_silent[OF assms(3)]
  by (simp add: try_connect_with_protocol_def Let_def reachable_node_def NodeInfo_default_def)

lemma ex_mute_is_reachable:
  "try_connect_with_protocol ex_chain ex_parse_version ex_parse_addr ex_env_mute
     ''198.51.100.5'' 8333 70016 10 =
   Some (reachable_node ''198.51.100.5'' 8333 (ex_clock 0) (ex_clock 1) 1000)"
  by (simp add: try_connect_with_protocol_def ex_env_mute_def have_complete_message_def)

text \<open>
  C6.  The claim, like the comment that follows the connect in the source (the node
  "will be reachable at minimum"), says that a target that accepts TCP and from which no
  byte is received is returned as a reachable record, never as \<^verbatim>\<open>None\<close>.  The handler
  that stands for a failed connect also catches what is raised after the connect: a
  peer that accepts TCP and resets the connection without sending, so that the read
  raises, is returned as \<^verbatim>\<open>None\<close>, and so is a peer to which the version message cannot
  be sent.
\<close>

theorem C6_reset_after_connect_is_unreachable:
  "de_connect ex_env_reset = Some 101
   \<and> de_version_sent ex_env_reset
   \<and> de_version_reads ex_env_reset = [ReadFailed]
   \<and> try_connect_with_protocol ex_chain ex_parse_version ex_parse_addr ex_env_reset
        ''198.51.100.5'' 8333 70016 10 = None
   \<and> de_connect ex_env_send_fails = Some 101
   \<and> try_connect_with_protocol ex_chain ex_parse_version ex_parse_addr ex_env_send_fails
        ''198.51.100.5'' 8333 70016 10 = None"
  by (simp add: try_connect_with_protocol_def ex_env_reset_def ex_env_send_fails_def
      ex_env_mute_def)

lemma ex_version_frame_parsed:
  "parse_message ex_version_frame [192, 192, 192, 192] = Inr (ascii ''version'', [], [])"
  by (simp add: parse_message_def ex_version_frame_def ascii_def le32_def)

lemma ex_handshake:
  "try_connect_with_protocol ex_chain ex_parse_version ex_parse_addr ex_env_handshake
     ''198.51.100.5'' 8333 70016 10 =
   Some ((NodeInfo_default ''198.51.100.5'' 8333 (ex_clock 0) (ex_clock 1))
           \<lparr>ni_version := Some ''/Satoshi:25.0.0/'', ni_protocol_version := Some 70016,
            ni_services := Some 1, ni_start_height := Some 800000,
            ni_user_agent := Some ''/Satoshi:25.0.0/'', ni_latency_ms := Some 2000,
            ni_status := ''up''\<rparr>)"
proof -
  have complete: "have_complete_message ex_version_frame"
    by (simp add: have_complete_message_def ex_version_frame_def ascii_def le32_def)
  have frames: "parse_version_frames [192, 192, 192, 192] ex_parse_version True ex_version_frame
          ni False False =
        Inr (ni\<lparr>ni_version := Some ''/Satoshi:25.0.0/'', ni_protocol_version := Some 70016,
                ni_services := Some 1, ni_start_height := Some 800000,
                ni_user_agent := Some ''/Satoshi:25.0.0/''\<rparr>, True, False)" for ni
    apply (subst parse_version_frames.simps)
    apply (simp add: ex_version_frame_parsed ex_parse_version_def)
    apply (subst parse_version_frames.simps)
    apply (simp add: ex_version_frame_def)
    done
  have ne: "ex_version_frame \<noteq> []" by (simp add: ex_version_frame_def)
  show ?thesis
    by (simp add: try_connect_with_protocol_def ex_env_handshake_def ex_env_mute_def ex_chain_def
        complete frames ne Let_def)
qed

lemma parse_version_frames_fields:
  assumes "parse_version_frames magic pvp vs remaining ni rv rk = Inr (ni', rv', rk')"
    and "rv \<longrightarrow> ni_protocol_version ni \<noteq> None \<and> ni_user_agent ni \<noteq> None"
  shows "rv' \<longrightarrow> ni_protocol_version ni' \<noteq> None \<and> ni_user_agent ni' \<noteq> None"
  using assms
proof (induction magic pvp vs remaining ni rv rk rule: parse_version_frames.induct)
  case (1 magic pvp vs remaining ni rv rk)
  note run = "1.prems"(1)[unfolded parse_version_frames.simps[of magic pvp vs remaining ni rv rk]]
  show ?case
  proof (cases "remaining = []")
    case True
    with run "1.prems"(2) show ?thesis by simp
  next
    case False
    show ?thesis
    proof (cases "parse_message remaining magic")
      case (Inl e)
      with False run "1.prems"(2) show ?thesis by simp
    next
      case (Inr frame)
      obtain command payload rest where frame: "frame = (command, payload, rest)"
        by (cases frame) auto
      show ?thesis
      proof (cases "command = ascii ''version''")
        case version: True
        show ?thesis
        proof (cases "pvp payload")
          case (Inl e)
          with False Inr frame version run "1.prems"(2) show ?thesis
            by (simp split: if_splits)
        next
          case vd: (Inr version_data)
          show ?thesis
          proof (cases vs)
            case True
            with False Inr frame version vd run
            have "parse_version_frames magic pvp vs rest
                    (ni\<lparr>ni_version := Some (vd_user_agent version_data),
                        ni_protocol_version := Some (vd_version version_data),
                        ni_services := Some (vd_services version_data),
                        ni_start_height := Some (vd_start_height version_data),
                        ni_user_agent := Some (vd_user_agent version_data)\<rparr>)
                    True rk = Inr (ni', rv', rk')"
              by simp
            from "1.IH"(1)[OF False Inr frame[symmetric] refl version vd True this]
            show ?thesis by simp
          next
            case no: False
            with False Inr frame version vd run show ?thesis
              by simp
          qed
        qed
      next
        case other: False
        show ?thesis
        proof (cases "command = ascii ''verack''")
          case True
          with False Inr frame other run
          have "parse_version_frames magic pvp vs rest ni rv True = Inr (ni', rv', rk')"
            by simp
          from "1.IH"(2)[OF False Inr frame[symmetric] refl other True this "1.prems"(2)]
          show ?thesis .
        next
          case neither: False
          with False Inr frame other run
          have "parse_version_frames magic pvp vs rest ni rv rk = Inr (ni', rv', rk')"
            by simp
          from "1.IH"(3)[OF False Inr frame[symmetric] refl other neither this "1.prems"(2)]
          show ?thesis .
        qed
      qed
    qed
  qed
qed

lemma try_connect_up_fields:
  assumes "try_connect_with_protocol chain pvp pap env ip port protocol_version timeout = Some n"
    and "ni_status n = ''up''"
  shows "ni_protocol_version n \<noteq> None \<and> ni_user_agent n \<noteq> None"
proof -
  have parsed: "ni_protocol_version ni' \<noteq> None \<and> ni_user_agent ni' \<noteq> None"
    if "parse_version_frames magic pvp vs data ni False False = Inr (ni', True, rk')"
    for magic vs data ni ni' rk'
    using parse_version_frames_fields[OF that] by simp
  from assms show ?thesis
    by (auto simp: try_connect_with_protocol_def Let_def reachable_node_def
        split: option.splits sum.splits if_splits prod.splits dest!: parsed)
qed

section \<open>A crawl pass\<close>

lemma seed_nodes_frame:
  "cs_nodes (seed_nodes fromisoformat chain now i nodes st) = cs_nodes st
   \<and> cs_crawled (seed_nodes fromisoformat chain now i nodes st) = cs_crawled st"
  by (induction nodes arbitrary: i st) (auto simp: Let_def split: option.splits)

lemma seed_from_database_frame:
  "cs_nodes (seed_from_database fromisoformat chain now db_nodes st) = cs_nodes st
   \<and> cs_crawled (seed_from_database fromisoformat chain now db_nodes st) = cs_crawled st"
  by (simp add: seed_from_database_def seed_nodes_frame split: sum.splits)

lemma local_info_named:
  assumes "rpc_version_known (Some answer)" and "get_local_node_info answer = Some info"
  shows "li_version info \<noteq> None \<and> li_subversion info \<noteq> None"
  using assms
  by (auto simp: rpc_version_known_def get_local_node_info_def Let_def
      split: sum.splits option.splits field.splits)

lemma mark_rpc_inv:
  assumes "rpc_version_known rpc" and "cs_nodes st = Map.empty" and "cs_crawled st = {}"
  shows "dom (cs_nodes (mark_rpc_node_as_up reach rpc clock st))
           \<subseteq> cs_crawled (mark_rpc_node_as_up reach rpc clock st)
         \<and> up_nodes_named (mark_rpc_node_as_up reach rpc clock st)"
proof (cases rpc)
  case None
  with assms show ?thesis by (simp add: mark_rpc_node_as_up_def up_nodes_named_def)
next
  case (Some answer)
  show ?thesis
  proof (cases "get_local_node_info answer")
    case None
    with Some assms show ?thesis by (simp add: mark_rpc_node_as_up_def up_nodes_named_def)
  next
    case info: (Some info)
    from local_info_named[OF assms(1)[unfolded Some] info]
    have named: "li_version info \<noteq> None" "li_subversion info \<noteq> None" by simp_all
    show ?thesis
      using Some info assms(2,3) named
      by (auto simp: mark_rpc_node_as_up_def up_nodes_named_def Let_def
          split: option.splits if_splits)
  qed
qed

lemma pass_seed_inv:
  assumes "rpc_version_known rpc"
  shows "pass_inv (pass_start
           (pass_seed fromisoformat chain now db_nodes rpc_keys reach rpc clock seed_keys st))"
proof -
  let ?st0 = "st\<lparr>cs_nodes := Map.empty, cs_crawled := {}, cs_pending := {}, peers_from_db := 0\<rparr>"
  let ?st1 = "seed_from_database fromisoformat chain now db_nodes ?st0"
  let ?st2 = "?st1\<lparr>cs_pending := cs_pending ?st1 \<union> rpc_keys\<rparr>"
  have "cs_nodes ?st2 = Map.empty" "cs_crawled ?st2 = {}"
    by (simp_all add: seed_from_database_frame)
  from mark_rpc_inv[OF assms this, of reach clock] show ?thesis
    by (simp add: pass_inv_def pass_start_def pass_seed_def Let_def up_nodes_named_def)
qed

lemma crawl_node_record_crawled:
  "cs_crawled (crawl_node_record node_env clock ip port result st)
     = insert (node_key ip port) (cs_crawled st)"
  by (simp add: crawl_node_record_def Let_def split: option.splits)

lemma crawl_node_record_fresh:
  assumes "cs_nodes st (node_key ip port) = None"
  shows "\<exists>entry. cs_nodes (crawl_node_record node_env clock ip port result st)
                   = (cs_nodes st)(node_key ip port \<mapsto> entry)
               \<and> (result = Some entry \<or> ni_status entry = ''down'')"
proof (cases result)
  case None
  show ?thesis
    unfolding None
    by (rule exI[where x = "\<lparr>ni_ip = ip, ni_port = port, ni_version = None,
                 ni_protocol_version = None, ni_services = None,
                 ni_start_height = None, ni_user_agent = None,
                 ni_latency_ms = None, ni_status = ''down'',
                 ni_first_seen = clock 1, ni_last_seen = clock 0,
                 ni_times_seen = 0, ni_peers = []\<rparr>"])
       (simp add: crawl_node_record_def Let_def assms)
next
  case (Some a)
  show ?thesis
    unfolding Some
    by (rule exI[where x = a]) (simp add: crawl_node_record_def Let_def assms)
qed

lemma crawl_node_begin_frame:
  assumes "crawl_node_begin ip port st = (st1, go)"
  shows "cs_nodes st1 = cs_nodes st \<and> cs_crawled st1 = cs_crawled st
         \<and> go = (node_key ip port \<notin> cs_crawled st)"
  using assms by (auto simp: crawl_node_begin_def Let_def split: if_splits)

lemma network_result_named:
  assumes "fst (connect_and_handshake cfg chain (network_dialer P world) ip port) = Some n"
    and "ni_status n = ''up''"
  shows "ni_protocol_version n \<noteq> None \<and> ni_user_agent n \<noteq> None"
proof -
  let ?Q = "\<lambda>r. case r of None \<Rightarrow> True
                 | Some m \<Rightarrow> ni_status m = ''up'' \<longrightarrow>
                     ni_protocol_version m \<noteq> None \<and> ni_user_agent m \<noteq> None"
  have dial: "?Q (network_dialer P world k ip port pv t)" for k pv t
  proof (cases "network_dialer P world k ip port pv t")
    case None
    then show ?thesis by simp
  next
    case (Some m)
    then have "try_connect_with_protocol (pp_chain P) (pp_parse_version P) (pp_parse_addr P)
                 (world k pv t) ip port pv t = Some m"
      by (simp add: network_dialer_def)
    from try_connect_up_fields[OF this] Some show ?thesis by simp
  qed
  have none: "?Q None" by simp
  have "?Q (fst (connect_and_handshake cfg chain (network_dialer P world) ip port))"
    by (rule connect_and_handshake_answers[where Q = ?Q and dial = "network_dialer P world"
          and ip = ip and port = port and cfg = cfg and chain = chain, OF none dial])
  with assms show ?thesis by simp
qed

lemma pass_step_inv:
  assumes "pass_step P s s'" and "pass_inv s"
  shows "pass_inv s'"
  using assms
proof (cases rule: pass_step.cases)
  case (spawn batch)
  with assms(2) show ?thesis by (simp add: pass_inv_def)
next
  case (start key ip port st1 go)
  from crawl_node_begin_frame[OF start(4)] start(1,3) assms(2)
  show ?thesis by (auto simp: pass_inv_def up_nodes_named_def)
next
  case (finish key ip port result world clock)
  let ?c = "ps_crawler s"
  from finish(2) assms(2) have fresh: "key \<notin> cs_crawled ?c" by (simp add: pass_inv_def)
  with assms(2) have "cs_nodes ?c key = None" by (auto simp: pass_inv_def)
  with finish(3) have none: "cs_nodes ?c (node_key ip port) = None" by simp
  from crawl_node_record_fresh[OF none, of "pp_node_env P" clock result]
  obtain entry where
    nodes: "cs_nodes (crawl_node_record (pp_node_env P) clock ip port result ?c)
              = (cs_nodes ?c)(key \<mapsto> entry)"
    and entry: "result = Some entry \<or> ni_status entry = ''down''"
    using finish(3) by auto
  have named: "ni_protocol_version entry \<noteq> None \<and> ni_user_agent entry \<noteq> None"
    if "ni_status entry = ''up''"
    using entry that finish(4) network_result_named[of "pp_cfg P" "pp_chain P" P world ip port entry]
    by auto
  have crawled: "cs_crawled (crawl_node_record (pp_node_env P) clock ip port result ?c)
                   = insert key (cs_crawled ?c)"
    using finish(3) by (simp add: crawl_node_record_crawled)
  from assms(2) named show ?thesis
    unfolding finish(1) pass_inv_def up_nodes_named_def
    by (auto simp: nodes crawled)
qed

lemma pass_reaches_inv:
  assumes "pass_reaches P s0 s" and "pass_inv s0"
  shows "pass_inv s"
  using assms unfolding pass_reaches_def
  by (induction rule: rtranclp_induct) (auto intro: pass_step_inv)

lemma pass_step_calls:
  assumes "pass_step P s s'" and "calls_inv s"
  shows "calls_inv s'"
  using assms
proof (cases rule: pass_step.cases)
  case (spawn batch)
  with assms(2) show ?thesis by (auto simp: calls_inv_def)
next
  case (start key ip port st1 go)
  from crawl_node_begin_frame[OF start(4)] start(3)
  have frame: "cs_crawled st1 = cs_crawled (ps_crawler s)" "go = (key \<notin> cs_crawled (ps_crawler s))"
    by simp_all
  from assms(2) start(2) have zero: "ps_calls s key = 0" if "key \<notin> cs_crawled (ps_crawler s)"
    using that unfolding calls_inv_def
    by (metis One_nat_def le_Suc_eq le_zero_eq task_phase.distinct(1) option.inject)
  from assms(2) show ?thesis
    unfolding start(1) calls_inv_def using frame zero by auto
next
  case (finish key ip port result world clock)
  have crawled: "cs_crawled (crawl_node_record (pp_node_env P) clock ip port result (ps_crawler s))
                   = insert key (cs_crawled (ps_crawler s))"
    using finish(3) by (simp add: crawl_node_record_crawled)
  from assms(2) show ?thesis
    unfolding finish(1) calls_inv_def by (auto simp: crawled)
qed

lemma pass_reaches_calls:
  assumes "pass_reaches P s0 s" and "calls_inv s0"
  shows "calls_inv s"
  using assms unfolding pass_reaches_def
  by (induction rule: rtranclp_induct) (auto intro: pass_step_calls)

text \<open>The example pass: one batch with the seeded key, whose only dial completes the handshake.\<close>

lemma ex_seeded_state: "ex_seeded = ex_state0\<lparr>cs_pending := {''198.51.100.5:8333''}\<rparr>"
  by (simp add: ex_seeded_def pass_seed_def seed_from_database_def mark_rpc_node_as_up_def
      ex_state0_def Let_def)

lemma ex_network_result:
  "fst (connect_and_handshake ex_cfg ex_chain (network_dialer ex_params ex_world)
          ''198.51.100.5'' 8333) = Some ex_handshaken"
proof -
  have dial: "network_dialer ex_params ex_world n ''198.51.100.5'' 8333 pv t = Some ex_handshaken"
    for n pv t
    using ex_handshake
    by (simp add: network_dialer_def ex_params_def ex_world_def ex_handshaken_def
        try_connect_with_protocol_def)
  have up: "has_status ''up'' (Some ex_handshaken)"
    by (simp add: has_status_def ex_handshaken_def)
  show ?thesis
    by (simp add: connect_and_handshake_def ex_cfg_def ex_chain_def Let_def upt_two dial up)
qed

lemma ex_run: "pass_reaches ex_params (pass_start ex_seeded) ex_pass_end"
proof -
  let ?k = "''198.51.100.5:8333''"
  let ?s0 = "pass_start ex_seeded"
  let ?s1 = "?s0\<lparr>ps_tasks := (\<lambda>k. if k \<in> {?k} then Some Created else None)\<rparr>"
  let ?c1 = "ex_state0\<lparr>connections_attempted := 1\<rparr>"
  let ?s2 = "?s1\<lparr>ps_crawler := ?c1,
                 ps_tasks := (ps_tasks ?s1)(?k := if True then Some Dialling else None),
                 ps_calls := (ps_calls ?s1)(?k := if True then Suc (ps_calls ?s1 ?k)
                                                  else ps_calls ?s1 ?k)\<rparr>"
  let ?r = "fst (connect_and_handshake (pp_cfg ex_params) (pp_chain ex_params)
                   (network_dialer ex_params ex_world) ''198.51.100.5'' 8333)"
  let ?s3 = "?s2\<lparr>ps_crawler := crawl_node_record (pp_node_env ex_params) ex_clock
                                  ''198.51.100.5'' 8333 ?r (ps_crawler ?s2),
                 ps_tasks := (ps_tasks ?s2)(?k := None)\<rparr>"
  have step1: "pass_step ex_params ?s0 ?s1"
    by (rule pass_step.spawn) (simp_all add: pass_start_def ex_seeded_state)
  have entered: "crawl_node_begin ''198.51.100.5'' 8333 (ps_crawler ?s1) = (?c1, True)"
    by (simp add: crawl_node_begin_def pass_start_def ex_seeded_state key_198 ex_state0_def Let_def)
  have step2: "pass_step ex_params ?s1 ?s2"
    by (rule pass_step.start[OF _ key_198 entered]) simp
  have step3: "pass_step ex_params ?s2 ?s3"
    by (rule pass_step.finish[OF _ key_198 refl]) simp
  have result: "?r = Some ex_handshaken"
    using ex_network_result by (simp add: ex_params_def)
  have peers: "ni_peers ex_handshaken = []" "ni_status ex_handshaken = ''up''"
    by (simp_all add: ex_handshaken_def NodeInfo_default_def)
  have reach1: "(pass_step ex_params)\<^sup>*\<^sup>* ?s0 ?s1"
    using step1 by (rule r_into_rtranclp[where r = "pass_step ex_params"])
  have reach2: "(pass_step ex_params)\<^sup>*\<^sup>* ?s0 ?s2"
    using reach1 step2 by (rule rtranclp.rtrancl_into_rtrancl[where r = "pass_step ex_params"])
  have steps: "(pass_step ex_params)\<^sup>*\<^sup>* ?s0 ?s3"
    using reach2 step3 by (rule rtranclp.rtrancl_into_rtrancl[where r = "pass_step ex_params"])
  have "?s3 = ex_pass_end"
    by (subst result)
       (simp add: crawl_node_record_def key_198 Let_def peers ex_pass_end_def
          pass_start_def ex_state0_def ex_params_def fun_eq_iff)
  with steps show ?thesis
    unfolding pass_reaches_def by simp
qed

text \<open>
  C5 (as amended).  At every point of a pass, every entry of \<^verbatim>\<open>nodes\<close> with status up has
  a non-null \<^verbatim>\<open>protocol_version\<close> and \<^verbatim>\<open>user_agent\<close>, provided the \<^verbatim>\<open>getnetworkinfo\<close>
  answer used by \<^verbatim>\<open>_mark_rpc_node_as_up\<close> carries a protocol version and a
  \<^verbatim>\<open>subversion\<close> that is not \<^verbatim>\<open>null\<close>.  For a record produced by a handshake the two
  fields are always set.
\<close>

theorem C5_up_nodes_have_version:
  assumes "pass_reaches P
             (pass_start
               (pass_seed fromisoformat chain now db_nodes rpc_keys reach rpc clock seed_keys st))
             s"
    and "rpc_version_known rpc"
    and "cs_nodes (ps_crawler s) key = Some n"
    and "ni_status n = ''up''"
  shows "ni_protocol_version n \<noteq> None \<and> ni_user_agent n \<noteq> None"
proof -
  from pass_reaches_inv[OF assms(1) pass_seed_inv[OF assms(2)]]
  have "up_nodes_named (ps_crawler s)" by (simp add: pass_inv_def)
  with assms(3,4) show ?thesis unfolding up_nodes_named_def by blast
qed

theorem C5_up_nodes_have_version_witness:
  "pass_reaches ex_params (pass_start ex_seeded) ex_pass_end
   \<and> cs_nodes (ps_crawler ex_pass_end) ''198.51.100.5:8333'' = Some ex_handshaken
   \<and> ni_status ex_handshaken = ''up''
   \<and> ni_protocol_version ex_handshaken \<noteq> None
   \<and> ni_user_agent ex_handshaken \<noteq> None"
proof -
  have known: "rpc_version_known None" by (simp add: rpc_version_known_def)
  have entry: "cs_nodes (ps_crawler ex_pass_end) ''198.51.100.5:8333'' = Some ex_handshaken"
    by (simp add: ex_pass_end_def)
  have up: "ni_status ex_handshaken = ''up''" by (simp add: ex_handshaken_def)
  from C5_up_nodes_have_version[OF ex_run[unfolded ex_seeded_def] known entry up] ex_run entry up
  show ?thesis by simp
qed

text \<open>
  C5, the claim as stated fails: when the \<^verbatim>\<open>getnetworkinfo\<close> answer has no key
  \<^verbatim>\<open>protocolversion\<close>, the pass starts with an entry for the local node whose status is up
  and whose \<^verbatim>\<open>protocol_version\<close> is \<^verbatim>\<open>None\<close>.
\<close>

theorem C5_local_node_without_version:
  "map_option ni_status
     (cs_nodes (pass_seed ex_fromisoformat ex_chain ex_five_minutes (Inr []) {} ex_probe_fails
                  (Some (Inr (Some ex_network_info_bare))) ex_clock {} ex_state0)
        ''203.0.113.9:8333'') = Some ''up''
   \<and> map_option ni_protocol_version
     (cs_nodes (pass_seed ex_fromisoformat ex_chain ex_five_minutes (Inr []) {} ex_probe_fails
                  (Some (Inr (Some ex_network_info_bare))) ex_clock {} ex_state0)
        ''203.0.113.9:8333'') = Some None"
proof -
  have info: "get_local_node_info (Inr (Some ex_network_info_bare)) =
     Some \<lparr>li_local_addresses = [(''2001:db8::1'', 8333), (''203.0.113.9'', 8333)],
           li_version = None, li_subversion = Some ''/Satoshi:25.0.0/''\<rparr>"
    by (simp add: get_local_node_info_def ex_network_info_bare_def ex_network_info_def)
  show ?thesis
    by (simp add: pass_seed_def seed_from_database_def mark_rpc_node_as_up_def info ex_selected
        key_203_9 Let_def ex_state0_def)
qed

text \<open>
  C2 (as amended).  Within a pass, \<^verbatim>\<open>_connect_and_handshake\<close> is called at most once for
  every key: a worker removes its key from \<^verbatim>\<open>pending\<close>, returns if the key is crawled,
  and a key that was dialled is in \<^verbatim>\<open>crawled\<close> before the next batch is formed, also
  when a peer's address response put it back into \<^verbatim>\<open>pending\<close> in between.
\<close>

theorem C2_one_call_per_key:
  assumes "pass_reaches P (pass_start st) s"
  shows "ps_calls s key \<le> 1"
proof -
  have "calls_inv (pass_start st)" by (simp add: calls_inv_def pass_start_def)
  from pass_reaches_calls[OF assms this] show ?thesis by (simp add: calls_inv_def)
qed

theorem C2_one_call_per_key_witness:
  "pass_reaches ex_params (pass_start ex_seeded) ex_pass_end
   \<and> ps_calls ex_pass_end ''198.51.100.5:8333'' = 1"
proof -
  have "ps_calls ex_pass_end ''198.51.100.5:8333'' = 1" by (simp add: ex_pass_end_def)
  with C2_one_call_per_key[OF ex_run, of "''198.51.100.5:8333''"] ex_run show ?thesis by simp
qed

text \<open>
  C2, the claim as stated fails: the one call of \<^verbatim>\<open>_connect_and_handshake\<close> for a key
  invokes the dialer \<^verbatim>\<open>_try_connect_with_protocol\<close> once per attempt.  With
  \<^verbatim>\<open>max_retries = 1\<close>, a target that refuses TCP is dialled twice.
\<close>

theorem C2_dialer_invoked_twice:
  "rs_dialled (snd (connect_and_handshake ex_cfg ex_chain ex_dial_refused ''198.51.100.99'' 1))
     = [None, None]
   \<and> length (rs_dialled
        (snd (connect_and_handshake ex_cfg ex_chain ex_dial_refused ''198.51.100.99'' 1))) = 2"
  by (simp add: retry_eval ex_dial_refused_def)

section \<open>Entries of keys that are dialled again\<close>

lemma mark_rpc_dom:
  assumes "cs_nodes st = Map.empty" and "cs_crawled st = {}"
  shows "dom (cs_nodes (mark_rpc_node_as_up reach rpc clock st))
           \<subseteq> cs_crawled (mark_rpc_node_as_up reach rpc clock st)"
  using assms
  by (auto simp: mark_rpc_node_as_up_def Let_def split: option.splits if_splits)

lemma pass_seed_entries:
  "entries_crawled (pass_start
     (pass_seed fromisoformat chain now db_nodes rpc_keys reach rpc clock seed_keys st))"
proof -
  let ?st0 = "st\<lparr>cs_nodes := Map.empty, cs_crawled := {}, cs_pending := {}, peers_from_db := 0\<rparr>"
  let ?st1 = "seed_from_database fromisoformat chain now db_nodes ?st0"
  let ?st2 = "?st1\<lparr>cs_pending := cs_pending ?st1 \<union> rpc_keys\<rparr>"
  have "cs_nodes ?st2 = Map.empty" "cs_crawled ?st2 = {}"
    by (simp_all add: seed_from_database_frame)
  from mark_rpc_dom[OF this, of reach rpc clock] show ?thesis
    by (simp add: entries_crawled_def pass_start_def pass_seed_def Let_def)
qed

lemma pass_step_entries:
  assumes "pass_step P s s'" and "entries_crawled s"
  shows "entries_crawled s'"
  using assms
proof (cases rule: pass_step.cases)
  case (spawn batch)
  with assms(2) show ?thesis by (simp add: entries_crawled_def)
next
  case (start key ip port st1 go)
  from crawl_node_begin_frame[OF start(4)] start(1,3) assms(2)
  show ?thesis by (auto simp: entries_crawled_def)
next
  case (finish key ip port result world clock)
  let ?c = "ps_crawler s"
  from finish(2) assms(2) have "key \<notin> cs_crawled ?c" by (simp add: entries_crawled_def)
  with assms(2) have "cs_nodes ?c key = None" by (auto simp: entries_crawled_def)
  with finish(3) have none: "cs_nodes ?c (node_key ip port) = None" by simp
  from crawl_node_record_fresh[OF none, of "pp_node_env P" clock result]
  obtain entry where
    nodes: "cs_nodes (crawl_node_record (pp_node_env P) clock ip port result ?c)
              = (cs_nodes ?c)(key \<mapsto> entry)"
    using finish(3) by auto
  have crawled: "cs_crawled (crawl_node_record (pp_node_env P) clock ip port result ?c)
                   = insert key (cs_crawled ?c)"
    using finish(3) by (simp add: crawl_node_record_crawled)
  from assms(2) show ?thesis
    unfolding finish(1) entries_crawled_def
    by (auto simp: nodes crawled)
qed

lemma pass_reaches_entries:
  assumes "pass_reaches P s0 s" and "entries_crawled s0"
  shows "entries_crawled s"
  using assms unfolding pass_reaches_def
  by (induction rule: rtranclp_induct) (auto intro: pass_step_entries)

text \<open>In every state of a pass, a key that has an entry in \<^verbatim>\<open>nodes\<close> is in \<^verbatim>\<open>crawled\<close>.\<close>

lemma known_key_is_crawled:
  assumes "pass_reaches P
             (pass_start
               (pass_seed fromisoformat chain now db_nodes rpc_keys reach rpc clock seed_keys st))
             s"
    and "cs_nodes (ps_crawler s) key = Some n"
  shows "key \<in> cs_crawled (ps_crawler s)"
proof -
  have "entries_crawled s"
    by (rule pass_reaches_entries[OF assms(1) pass_seed_entries])
  with assms(2) show ?thesis by (auto simp: entries_crawled_def)
qed

text \<open>An entry of \<^verbatim>\<open>nodes\<close> is not changed by the rest of the pass.\<close>

lemma pass_step_keeps_entry:
  assumes "pass_step P s s'" and "entries_crawled s"
    and "cs_nodes (ps_crawler s) key = Some n"
  shows "cs_nodes (ps_crawler s') key = Some n"
  using assms(1)
proof (cases rule: pass_step.cases)
  case (spawn batch)
  with assms(3) show ?thesis by simp
next
  case (start k ip port st1 go)
  from crawl_node_begin_frame[OF start(4)] start(1) assms(3)
  show ?thesis by simp
next
  case (finish k ip port result world clock)
  let ?c = "ps_crawler s"
  from finish(2) assms(2) have "k \<notin> cs_crawled ?c" by (simp add: entries_crawled_def)
  with assms(2) have free: "cs_nodes ?c k = None" by (auto simp: entries_crawled_def)
  with assms(3) have other: "key \<noteq> k" by auto
  from free finish(3) have none: "cs_nodes ?c (node_key ip port) = None" by simp
  from crawl_node_record_fresh[OF none, of "pp_node_env P" clock result]
  obtain entry where
    nodes: "cs_nodes (crawl_node_record (pp_node_env P) clock ip port result ?c)
              = (cs_nodes ?c)(k \<mapsto> entry)"
    using finish(3) by auto
  from assms(3) other show ?thesis
    unfolding finish(1) by (simp add: nodes)
qed

lemma entry_is_final:
  assumes "pass_reaches P
             (pass_start
               (pass_seed fromisoformat chain now db_nodes rpc_keys reach rpc clock seed_keys st))
             s"
    and "pass_reaches P s s'"
    and "cs_nodes (ps_crawler s) key = Some n"
  shows "cs_nodes (ps_crawler s') key = Some n"
proof -
  have start: "entries_crawled s"
    by (rule pass_reaches_entries[OF assms(1) pass_seed_entries])
  have "entries_crawled s' \<and> cs_nodes (ps_crawler s') key = Some n"
    using assms(2) start assms(3) unfolding pass_reaches_def
    by (induction rule: rtranclp_induct)
       (auto intro: pass_step_entries pass_step_keeps_entry)
  then show ?thesis by simp
qed

text \<open>The example pass with two peers.\<close>

lemma key_203_7: "node_key ''203.0.113.7'' 8333 = ''203.0.113.7:8333''"
  by (simp add: node_key_def py_str_int_def)

lemma valid_198: "is_valid_ip None ''198.51.100.5''"
  by (simp add: is_valid_ip_def py_int_eval)

lemma ex_version_frames_parsed:
  "parse_version_frames [192, 192, 192, 192] ex_parse_version True ex_version_frame
          ni False False =
        Inr (ni\<lparr>ni_version := Some ''/Satoshi:25.0.0/'', ni_protocol_version := Some 70016,
                ni_services := Some 1, ni_start_height := Some 800000,
                ni_user_agent := Some ''/Satoshi:25.0.0/''\<rparr>, True, False)"
  apply (subst parse_version_frames.simps)
  apply (simp add: ex_version_frame_parsed ex_parse_version_def)
  apply (subst parse_version_frames.simps)
  apply (simp add: ex_version_frame_def)
  done

lemma ex_addr_frame_parsed:
  "parse_message ex_addr_frame [192, 192, 192, 192] = Inr (ascii ''addr'', [], [])"
  by (simp add: parse_message_def ex_addr_frame_def ascii_def le32_def)

lemma ex_addr_frames_parsed:
  "parse_addr_frames [192, 192, 192, 192] ex_parse_addr_gossip ex_addr_frame
     = Inr (Some [ex_peer_a], [])"
  apply (subst parse_addr_frames.simps)
  apply (simp add: ex_addr_frame_parsed ex_parse_addr_gossip_def)
  apply (simp add: ex_addr_frame_def)
  done

lemma ex_dial_quiet:
  "network_dialer ex_params_gossip ex_world n ''198.51.100.5'' 8333 pv t = Some ex_handshaken"
proof -
  have complete: "have_complete_message ex_version_frame"
    by (simp add: have_complete_message_def ex_version_frame_def ascii_def le32_def)
  have ne: "ex_version_frame \<noteq> []" by (simp add: ex_version_frame_def)
  show ?thesis
    by (simp add: network_dialer_def ex_params_gossip_def ex_world_def
        try_connect_with_protocol_def ex_env_handshake_def ex_env_mute_def ex_chain_def
        complete ex_version_frames_parsed ne Let_def ex_handshaken_def)
qed

lemma ex_dial_gossip:
  "network_dialer ex_params_gossip ex_world_gossip n ''203.0.113.7'' 8333 pv t = Some ex_gossiper"
proof -
  have complete: "have_complete_message ex_version_frame"
    by (simp add: have_complete_message_def ex_version_frame_def ascii_def le32_def)
  have ne: "ex_version_frame \<noteq> []" "ex_addr_frame \<noteq> []"
    by (simp_all add: ex_version_frame_def ex_addr_frame_def)
  show ?thesis
    by (simp add: network_dialer_def ex_params_gossip_def ex_world_gossip_def
        try_connect_with_protocol_def ex_env_gossip_def ex_env_handshake_def ex_env_mute_def
        ex_chain_def complete ex_version_frames_parsed ex_addr_frames_parsed ne Let_def
        ex_gossiper_def)
qed

lemma ex_result_quiet:
  "fst (connect_and_handshake (pp_cfg ex_params_gossip) (pp_chain ex_params_gossip)
          (network_dialer ex_params_gossip ex_world) ''198.51.100.5'' 8333) = Some ex_handshaken"
proof -
  have up: "has_status ''up'' (Some ex_handshaken)"
    by (simp add: has_status_def ex_handshaken_def)
  have params: "pp_cfg ex_params_gossip = ex_cfg" "pp_chain ex_params_gossip = ex_chain"
    by (simp_all add: ex_params_gossip_def)
  show ?thesis
    by (simp add: params connect_and_handshake_def ex_cfg_def ex_chain_def Let_def upt_two
        ex_dial_quiet up)
qed

lemma ex_result_gossip:
  "fst (connect_and_handshake (pp_cfg ex_params_gossip) (pp_chain ex_params_gossip)
          (network_dialer ex_params_gossip ex_world_gossip) ''203.0.113.7'' 8333)
     = Some ex_gossiper"
proof -
  have up: "has_status ''up'' (Some ex_gossiper)"
    by (simp add: has_status_def ex_gossiper_def)
  have params: "pp_cfg ex_params_gossip = ex_cfg" "pp_chain ex_params_gossip = ex_chain"
    by (simp_all add: ex_params_gossip_def)
  show ?thesis
    by (simp add: params connect_and_handshake_def ex_cfg_def ex_chain_def Let_def upt_two
        ex_dial_gossip up)
qed

lemma ex_seeded_two_state:
  "ex_seeded_two = ex_state0\<lparr>cs_pending := {''198.51.100.5:8333'', ''203.0.113.7:8333''}\<rparr>"
  by (simp add: ex_seeded_two_def pass_seed_def seed_from_database_def mark_rpc_node_as_up_def
      ex_state0_def Let_def)

lemma ex_race_run: "pass_reaches ex_params_gossip (pass_start ex_seeded_two) ex_race_end"
proof -
  let ?P = "ex_params_gossip"
  let ?A = "''198.51.100.5:8333''"
  let ?B = "''203.0.113.7:8333''"
  let ?created = "\<lambda>k. if k \<in> {?A, ?B} then Some Created else None"
  let ?c1 = "ex_state0\<lparr>cs_pending := {?A, ?B}\<rparr>"
  let ?c2 = "ex_state0\<lparr>cs_pending := {?B}, connections_attempted := 1\<rparr>"
  let ?c3 = "ex_state0\<lparr>cs_pending := {}, connections_attempted := 2\<rparr>"
  let ?c4 = "ex_state0\<lparr>cs_nodes := [?B \<mapsto> ex_gossiper], cs_pending := {?A},
                         cs_crawled := {?B}, connections_attempted := 2,
                         connections_successful := 1, nodes_discovered := 1\<rparr>"
  let ?c5 = "ps_crawler ex_race_end"
  let ?t0 = "pass_start ex_seeded_two"
  let ?t1 = "\<lparr>ps_crawler = ?c1, ps_tasks = ?created, ps_calls = (\<lambda>k. 0)\<rparr>"
  let ?t2 = "\<lparr>ps_crawler = ?c2, ps_tasks = ?created(?A := Some Dialling),
              ps_calls = (\<lambda>k. 0)(?A := Suc 0)\<rparr>"
  let ?t3 = "\<lparr>ps_crawler = ?c3, ps_tasks = ?created(?A := Some Dialling, ?B := Some Dialling),
              ps_calls = (\<lambda>k. 0)(?A := Suc 0, ?B := Suc 0)\<rparr>"
  let ?t4 = "\<lparr>ps_crawler = ?c4, ps_tasks = ?created(?A := Some Dialling, ?B := None),
              ps_calls = (\<lambda>k. 0)(?A := Suc 0, ?B := Suc 0)\<rparr>"
  let ?t5 = "\<lparr>ps_crawler = ?c5, ps_tasks = ?created(?A := None, ?B := None),
              ps_calls = (\<lambda>k. 0)(?A := Suc 0, ?B := Suc 0)\<rparr>"
  let ?rA = "fst (connect_and_handshake (pp_cfg ?P) (pp_chain ?P) (network_dialer ?P ex_world)
                    ''198.51.100.5'' 8333)"
  let ?rB = "fst (connect_and_handshake (pp_cfg ?P) (pp_chain ?P)
                    (network_dialer ?P ex_world_gossip) ''203.0.113.7'' 8333)"
  have env: "pp_node_env ?P = None" by (simp add: ex_params_gossip_def)
  have gossiper: "ni_peers ex_gossiper = [ex_peer_a]" "ni_status ex_gossiper = ''up''"
    by (simp_all add: ex_gossiper_def)
  have quiet: "ni_peers ex_handshaken = []" "ni_status ex_handshaken = ''up''"
    by (simp_all add: ex_handshaken_def NodeInfo_default_def)
  have peer: "na_ip ex_peer_a = ''198.51.100.5''" "na_port ex_peer_a = 8333"
    by (simp_all add: ex_peer_a_def)
  have eq1: "?t0\<lparr>ps_tasks := ?created\<rparr> = ?t1"
    by (simp add: pass_start_def ex_seeded_two_state)
  have step1: "pass_step ?P ?t0 ?t1"
    unfolding eq1[symmetric]
    by (rule pass_step.spawn) (simp_all add: pass_start_def ex_seeded_two_state)
  have entered_a: "crawl_node_begin ''198.51.100.5'' 8333 (ps_crawler ?t1) = (?c2, True)"
    by (simp add: crawl_node_begin_def key_198 ex_state0_def Let_def)
  have eq2: "?t1\<lparr>ps_crawler := ?c2,
                 ps_tasks := (ps_tasks ?t1)(?A := if True then Some Dialling else None),
                 ps_calls := (ps_calls ?t1)(?A := if True then Suc (ps_calls ?t1 ?A)
                                                  else ps_calls ?t1 ?A)\<rparr> = ?t2"
    by simp
  have step2: "pass_step ?P ?t1 ?t2"
    unfolding eq2[symmetric]
    by (rule pass_step.start[OF _ key_198 entered_a]) simp
  have entered_b: "crawl_node_begin ''203.0.113.7'' 8333 (ps_crawler ?t2) = (?c3, True)"
    by (simp add: crawl_node_begin_def key_203_7 ex_state0_def Let_def)
  have eq3: "?t2\<lparr>ps_crawler := ?c3,
                 ps_tasks := (ps_tasks ?t2)(?B := if True then Some Dialling else None),
                 ps_calls := (ps_calls ?t2)(?B := if True then Suc (ps_calls ?t2 ?B)
                                                  else ps_calls ?t2 ?B)\<rparr> = ?t3"
    by simp
  have step3: "pass_step ?P ?t2 ?t3"
    unfolding eq3[symmetric]
    by (rule pass_step.start[OF _ key_203_7 entered_b]) simp
  have record_b: "crawl_node_record (pp_node_env ?P) ex_clock ''203.0.113.7'' 8333 ?rB ?c3 = ?c4"
    by (simp add: ex_result_gossip env crawl_node_record_def key_203_7 Let_def gossiper
        admit_peer_def peer key_198 valid_198 ex_state0_def)
  have eq4: "?t3\<lparr>ps_crawler := crawl_node_record (pp_node_env ?P) ex_clock ''203.0.113.7'' 8333
                                  ?rB (ps_crawler ?t3),
                 ps_tasks := (ps_tasks ?t3)(?B := None)\<rparr> = ?t4"
    using record_b by simp
  have step4: "pass_step ?P ?t3 ?t4"
    unfolding eq4[symmetric]
    by (rule pass_step.finish[OF _ key_203_7 refl]) simp
  have record_a: "crawl_node_record (pp_node_env ?P) ex_clock ''198.51.100.5'' 8333 ?rA ?c4 = ?c5"
    by (simp add: ex_result_quiet env crawl_node_record_def key_198 Let_def quiet
        ex_state0_def ex_race_end_def insert_commute)
  have eq5: "?t4\<lparr>ps_crawler := crawl_node_record (pp_node_env ?P) ex_clock ''198.51.100.5'' 8333
                                  ?rA (ps_crawler ?t4),
                 ps_tasks := (ps_tasks ?t4)(?A := None)\<rparr> = ?t5"
    using record_a by (simp add: fun_upd_twist)
  have step5: "pass_step ?P ?t4 ?t5"
    unfolding eq5[symmetric]
    by (rule pass_step.finish[OF _ key_198 refl]) simp
  have last: "?t5 = ex_race_end"
    by (simp add: ex_race_end_def fun_eq_iff)
  have reach1: "(pass_step ?P)\<^sup>*\<^sup>* ?t0 ?t1"
    using step1 by (rule r_into_rtranclp[where r = "pass_step ?P"])
  have reach2: "(pass_step ?P)\<^sup>*\<^sup>* ?t0 ?t2"
    using reach1 step2 by (rule rtranclp.rtrancl_into_rtrancl[where r = "pass_step ?P"])
  have reach3: "(pass_step ?P)\<^sup>*\<^sup>* ?t0 ?t3"
    using reach2 step3 by (rule rtranclp.rtrancl_into_rtrancl[where r = "pass_step ?P"])
  have reach4: "(pass_step ?P)\<^sup>*\<^sup>* ?t0 ?t4"
    using reach3 step4 by (rule rtranclp.rtrancl_into_rtrancl[where r = "pass_step ?P"])
  have reach5: "(pass_step ?P)\<^sup>*\<^sup>* ?t0 ?t5"
    using reach4 step5 by (rule rtranclp.rtrancl_into_rtrancl[where r = "pass_step ?P"])
  then show ?thesis
    unfolding pass_reaches_def last .
qed

text \<open>
  C10.  When \<^verbatim>\<open>_crawl_node\<close> is called for a key that has an entry in \<^verbatim>\<open>nodes\<close> and the
  dial of that target gives a record with status reachable, the entry keeps its
  \<^verbatim>\<open>version\<close>, \<^verbatim>\<open>protocol_version\<close>, \<^verbatim>\<open>services\<close>, \<^verbatim>\<open>start_height\<close>, \<^verbatim>\<open>user_agent\<close> and
  \<^verbatim>\<open>peers\<close>.  If the key is already in \<^verbatim>\<open>crawled\<close> (the case of every key with an entry
  during a pass) the call returns before dialling and the entry is unchanged; otherwise
  the dial result is recorded and exactly \<^verbatim>\<open>latency_ms\<close>, \<^verbatim>\<open>status\<close>, \<^verbatim>\<open>last_seen\<close> and
  \<^verbatim>\<open>times_seen\<close> are updated.
\<close>

theorem C10_reachable_keeps_version_fields:
  assumes "cs_nodes st (node_key ip port) = Some existing"
    and "fst (connect_and_handshake cfg chain dial ip port) = Some ni"
    and "ni_status ni = ''reachable''"
  shows "\<exists>entry.
           cs_nodes (crawl_node node_env cfg chain dial clock ip port st) (node_key ip port)
             = Some entry
           \<and> ni_version entry = ni_version existing
           \<and> ni_protocol_version entry = ni_protocol_version existing
           \<and> ni_services entry = ni_services existing
           \<and> ni_start_height entry = ni_start_height existing
           \<and> ni_user_agent entry = ni_user_agent existing
           \<and> ni_peers entry = ni_peers existing
           \<and> entry = (if node_key ip port \<in> cs_crawled st then existing
                       else existing\<lparr>ni_latency_ms := ni_latency_ms ni,
                                     ni_status := ''reachable'',
                                     ni_last_seen := clock 0,
                                     ni_times_seen := ni_times_seen existing + 1\<rparr>)"
  using assms
  by (simp add: crawl_node_def crawl_node_begin_def crawl_node_record_def Let_def)

theorem C10_reachable_keeps_version_fields_witness:
  "pass_reaches ex_params_gossip (pass_start ex_seeded_two) ex_race_end
   \<and> ''198.51.100.5:8333'' \<in> cs_pending (ps_crawler ex_race_end)
   \<and> cs_nodes (ps_crawler ex_race_end) ''198.51.100.5:8333'' = Some ex_handshaken
   \<and> fst (connect_and_handshake ex_cfg ex_chain ex_dial_mute ''198.51.100.5'' 8333)
       = Some ex_reachable
   \<and> ni_status ex_reachable = ''reachable''
   \<and> (\<exists>entry.
         cs_nodes (crawl_node None ex_cfg ex_chain ex_dial_mute ex_clock ''198.51.100.5'' 8333
                     (ps_crawler ex_race_end)) ''198.51.100.5:8333'' = Some entry
         \<and> ni_version entry = Some ''/Satoshi:25.0.0/''
         \<and> ni_protocol_version entry = Some 70016
         \<and> ni_services entry = Some 1
         \<and> ni_start_height entry = Some 800000
         \<and> ni_user_agent entry = Some ''/Satoshi:25.0.0/''
         \<and> ni_peers entry = []
         \<and> entry = ex_handshaken)"
proof -
  have entry: "cs_nodes (ps_crawler ex_race_end) (node_key ''198.51.100.5'' 8333)
                 = Some ex_handshaken"
    by (simp add: ex_race_end_def key_198)
  have dial: "fst (connect_and_handshake ex_cfg ex_chain ex_dial_mute ''198.51.100.5'' 8333)
                = Some ex_reachable"
    by (simp add: retry_eval ex_dial_mute_def)
  have status: "ni_status ex_reachable = ''reachable''"
    by (simp add: ex_reachable_def reachable_node_def)
  have crawled: "''198.51.100.5:8333'' \<in> cs_crawled (ps_crawler ex_race_end)"
                "''198.51.100.5:8333'' \<in> cs_pending (ps_crawler ex_race_end)"
    by (simp_all add: ex_race_end_def)
  have fields: "ni_version ex_handshaken = Some ''/Satoshi:25.0.0/''"
    "ni_protocol_version ex_handshaken = Some 70016" "ni_services ex_handshaken = Some 1"
    "ni_start_height ex_handshaken = Some 800000"
    "ni_user_agent ex_handshaken = Some ''/Satoshi:25.0.0/''" "ni_peers ex_handshaken = []"
    by (simp_all add: ex_handshaken_def NodeInfo_default_def)
  from C10_reachable_keeps_version_fields[OF entry dial status, of None ex_clock]
  show ?thesis
    using ex_race_run entry dial status crawled
    by (simp add: key_198 fields)
qed

end
